theory Spec2Isabelle
  imports Complex_Main
begin

section \<open>Numbers of the program\<close>

text \<open>
  Every number the program computes with is an IEEE double: Python's \<open>float\<close> and
  numpy's \<open>float64\<close> hold the same values. The model keeps the three kinds of value a
  double can be (a finite number, an infinity, not-a-number) and idealises the finite
  ones as reals: rounding, overflow of finite results and the sign of zero are left out.
  Decimal literals of the source (\<open>0.7374\<close>, \<open>2/3\<close>) are the reals they denote.
\<close>

datatype float64 = Fin real | PosInf | NegInf | NaN

text \<open>
  The exceptions the modelled code can raise: a list index out of range, a call of
  \<open>float\<close> or \<open>int\<close> on a string that is no number, Python's float division by zero,
  and the \<open>TypeError\<close> with which the least-squares routine rejects improper input.
\<close>

datatype error = IndexError | ValueError | ZeroDivisionError | TypeError

definition ebind :: "error + 'a \<Rightarrow> ('a \<Rightarrow> error + 'b) \<Rightarrow> error + 'b" where
  "ebind m k = (case m of Inl e \<Rightarrow> Inl e | Inr v \<Rightarrow> k v)"

subsection \<open>Arithmetic that never raises (numpy scalars and arrays)\<close>

fun np_neg :: "float64 \<Rightarrow> float64" where
  "np_neg (Fin x) = Fin (- x)"
| "np_neg PosInf = NegInf"
| "np_neg NegInf = PosInf"
| "np_neg NaN = NaN"

fun np_add :: "float64 \<Rightarrow> float64 \<Rightarrow> float64" where
  "np_add (Fin x) (Fin y) = Fin (x + y)"
| "np_add NaN _ = NaN"
| "np_add _ NaN = NaN"
| "np_add PosInf NegInf = NaN"
| "np_add NegInf PosInf = NaN"
| "np_add PosInf _ = PosInf"
| "np_add _ PosInf = PosInf"
| "np_add NegInf _ = NegInf"
| "np_add _ NegInf = NegInf"

definition np_sub :: "float64 \<Rightarrow> float64 \<Rightarrow> float64" where
  "np_sub x y = np_add x (np_neg y)"

text \<open>The sign of a product or quotient with an infinite operand.\<close>

definition signed_inf :: "bool \<Rightarrow> float64" where
  "signed_inf positive = (if positive then PosInf else NegInf)"

fun np_mul :: "float64 \<Rightarrow> float64 \<Rightarrow> float64" where
  "np_mul (Fin x) (Fin y) = Fin (x * y)"
| "np_mul NaN _ = NaN"
| "np_mul _ NaN = NaN"
| "np_mul (Fin x) PosInf = (if x = 0 then NaN else signed_inf (0 < x))"
| "np_mul (Fin x) NegInf = (if x = 0 then NaN else signed_inf (x < 0))"
| "np_mul PosInf (Fin y) = (if y = 0 then NaN else signed_inf (0 < y))"
| "np_mul NegInf (Fin y) = (if y = 0 then NaN else signed_inf (y < 0))"
| "np_mul PosInf PosInf = PosInf"
| "np_mul NegInf NegInf = PosInf"
| "np_mul PosInf NegInf = NegInf"
| "np_mul NegInf PosInf = NegInf"

text \<open>
  Division of numpy scalars: a zero divisor gives an infinity of the dividend's sign, or
  not-a-number when the dividend is zero too, with a warning and no exception.
\<close>

fun np_div :: "float64 \<Rightarrow> float64 \<Rightarrow> float64" where
  "np_div (Fin x) (Fin y) =
     (if y = 0 then (if x = 0 then NaN else signed_inf (0 < x)) else Fin (x / y))"
| "np_div NaN _ = NaN"
| "np_div _ NaN = NaN"
| "np_div (Fin x) _ = Fin 0"
| "np_div PosInf (Fin y) = signed_inf (0 \<le> y)"
| "np_div NegInf (Fin y) = signed_inf (y < 0)"
| "np_div _ _ = NaN"

text \<open>\<open>np.sqrt\<close>: not-a-number below zero, with a warning and no exception.\<close>

fun np_sqrt :: "float64 \<Rightarrow> float64" where
  "np_sqrt (Fin x) = (if x < 0 then NaN else Fin (sqrt x))"
| "np_sqrt PosInf = PosInf"
| "np_sqrt NegInf = NaN"
| "np_sqrt NaN = NaN"

text \<open>\<open>x ** 2\<close>, the same for Python floats and numpy values.\<close>

definition square :: "float64 \<Rightarrow> float64" where
  "square x = np_mul x x"

text \<open>
  \<open>np.power(x, p)\<close> for an exponent \<open>p\<close> that is positive and no integer (the source
  passes \<open>2/3\<close>): a negative finite base gives not-a-number, an infinite base gives
  plus infinity.
\<close>

fun np_power :: "float64 \<Rightarrow> real \<Rightarrow> float64" where
  "np_power (Fin x) p = (if x < 0 then NaN else Fin (x powr p))"
| "np_power PosInf p = PosInf"
| "np_power NegInf p = PosInf"
| "np_power NaN p = NaN"

text \<open>\<open>np.mean\<close> of a sequence: the sum over the count; not-a-number when it is empty.\<close>

definition np_sum :: "float64 list \<Rightarrow> float64" where
  "np_sum xs = foldl np_add (Fin 0) xs"

definition np_mean :: "float64 list \<Rightarrow> float64" where
  "np_mean xs = np_div (np_sum xs) (Fin (real (length xs)))"

subsection \<open>Python's float division\<close>

definition float_div :: "float64 \<Rightarrow> float64 \<Rightarrow> error + float64" where
  "float_div x y = (if y = Fin 0 then Inl ZeroDivisionError else Inr (np_div x y))"

section \<open>Resistance extraction\<close>

text \<open>
  \<open>calculate_resistance\<close> reads \<open>self.center\<close> and \<open>self.radius\<close>, both numpy values,
  so no operation in it raises. It returns the pair \<open>(Ri, Re)\<close>.
\<close>

definition calculate_resistance :: "float64 \<times> float64 \<Rightarrow> float64 \<Rightarrow> float64 \<times> float64" where
  "calculate_resistance center radius =
     (let a = fst center;
          b = snd center;
          r = radius;
          x2 = np_add (np_sqrt (np_sub (square r) (square b))) a;
          x1 = np_add (np_neg (np_sqrt (np_sub (square r) (square b)))) a;
          Re = x2;
          Ri = np_div (np_mul x1 Re) (np_sub Re x1)
      in (Ri, Re))"

section \<open>Circle fit\<close>

text \<open>
  \<open>self.freq\<close> and \<open>self.react\<close> are two lists that \<open>get_freq_react_data\<close> fills in
  step, so they have one length; \<open>calc_R\<close> combines them elementwise.
\<close>

definition calc_R :: "float64 list \<Rightarrow> float64 list \<Rightarrow> float64 \<Rightarrow> float64 \<Rightarrow> float64 list" where
  "calc_R freq react xc yc =
     map (\<lambda>(f, x). np_sqrt (np_add (square (np_sub f xc)) (square (np_sub x yc))))
       (zip freq react)"

definition f_2 :: "float64 list \<Rightarrow> float64 list \<Rightarrow> float64 \<times> float64 \<Rightarrow> float64 list" where
  "f_2 freq react c =
     (let Ri = calc_R freq react (fst c) (snd c)
      in map (\<lambda>R. np_sub R (np_mean Ri)) Ri)"

text \<open>
  \<open>scipy.optimize.leastsq\<close> is a library routine, no code of this program: the model
  takes it as the parameter \<open>leastsq\<close>. Given the residual function and the starting
  point, it raises or returns the final point with its status flag \<open>ier\<close>
  (1 to 4: a solution was found; 5 to 8: none was, and only a warning is printed).
\<close>

type_synonym solver =
  "(float64 \<times> float64 \<Rightarrow> float64 list) \<Rightarrow> float64 \<times> float64 \<Rightarrow>
     error + ((float64 \<times> float64) \<times> int)"

definition calculate_radius ::
  "solver \<Rightarrow> float64 list \<Rightarrow> float64 list \<Rightarrow> error + (float64 \<times> (float64 \<times> float64))" where
  "calculate_radius leastsq freq react =
     (let x_m = np_mean freq;
          center_estimate = (x_m, Fin 0)
      in ebind (leastsq (f_2 freq react) center_estimate) (\<lambda>(center, ier).
           let Ri = calc_R freq react (fst center) (snd center);
               R = np_mean Ri
           in Inr (R, center)))"

section \<open>Body composition\<close>

definition getitem :: "'a list \<Rightarrow> nat \<Rightarrow> error + 'a" where
  "getitem xs i = (if i < length xs then Inr (xs ! i) else Inl IndexError)"

definition calculate_bmi :: "float64 \<Rightarrow> float64 \<Rightarrow> error + float64" where
  "calculate_bmi height weight =
     ebind (float_div height (Fin 100)) (\<lambda>m. float_div weight (square m))"

text \<open>
  The loop of \<open>calculate_ffm\<close> over \<open>range(len(self.freq))\<close>; \<open>FFM\<close> is the list built
  so far. Height, weight and the samples are Python floats, the age is an integer.
\<close>

fun ffm_loop ::
  "float64 \<Rightarrow> float64 \<Rightarrow> int \<Rightarrow> float64 list \<Rightarrow> float64 list \<Rightarrow> nat list \<Rightarrow> float64 list \<Rightarrow>
     error + float64 list" where
  "ffm_loop height weight age freq react [] FFM = Inr FFM"
| "ffm_loop height weight age freq react (i # rest) FFM =
     ebind (getitem freq i) (\<lambda>f.
     ebind (float_div (np_mul (Fin 0.7374) (square height)) f) (\<lambda>t0.
       let t1 = np_add t0 (np_mul (Fin 0.1763) weight);
           t2 = np_sub t1 (np_mul (Fin 0.1773) (Fin (of_int age)))
       in ebind (getitem react i) (\<lambda>x.
            let t3 = np_add t2 (np_mul (Fin 0.1198) x);
                FFM_i = np_sub t3 (Fin 2.4658)
            in ffm_loop height weight age freq react rest (FFM @ [FFM_i]))))"

definition calculate_ffm ::
  "float64 \<Rightarrow> float64 \<Rightarrow> int \<Rightarrow> float64 list \<Rightarrow> float64 list \<Rightarrow> error + float64" where
  "calculate_ffm height weight age freq react =
     ebind (ffm_loop height weight age freq react [0..<length freq] [])
       (\<lambda>FFM. Inr (np_mean FFM))"

text \<open>
  \<open>calculate_body_water\<close>: \<open>self.bmi\<close> is a Python float, so the two divisions by it
  raise on zero; \<open>self.re\<close> and \<open>self.ri\<close> are numpy values. It returns
  \<open>(ecw, icw, tbw)\<close>.
\<close>

definition calculate_body_water ::
  "float64 \<Rightarrow> float64 \<Rightarrow> float64 \<Rightarrow> float64 \<Rightarrow> float64 \<Rightarrow> error + (float64 \<times> float64 \<times> float64)" where
  "calculate_body_water height weight bmi re ri =
     ebind (float_div (Fin 0.188) bmi) (\<lambda>q_ecw.
       let k_ecw = np_add q_ecw (Fin 0.2883)
       in ebind (float_div (Fin 5.8758) bmi) (\<lambda>q_icw.
            let k_icw = np_add q_icw (Fin 0.4194);
                ecw = np_mul k_ecw
                        (np_power (np_div (np_mul (square height) (np_sqrt weight)) re) (2 / 3));
                icw = np_mul k_icw
                        (np_power (np_div (np_mul (square height) (np_sqrt weight)) ri) (2 / 3));
                tbw = np_add ecw icw
            in Inr (ecw, icw, tbw)))"

section \<open>Reading the sweep file\<close>

text \<open>
  \<open>s.split(sep)\<close> for a separator of one character: the string is cut at every
  occurrence of it, so the result is never empty and may hold empty strings.
\<close>

fun str_split :: "char \<Rightarrow> string \<Rightarrow> string list" where
  "str_split sep [] = [[]]"
| "str_split sep (c # cs) =
     (if c = sep then [] # str_split sep cs
      else (case str_split sep cs of
              [] \<Rightarrow> [[c]]
            | w # ws \<Rightarrow> (c # w) # ws))"

text \<open>\<open>read_file\<close>, given what \<open>f.read()\<close> returns.\<close>

definition read_file :: "string \<Rightarrow> string list" where
  "read_file content = str_split (CHR 0x0A) content"

text \<open>The slice \<open>data[13:-1]\<close>, which never raises.\<close>

definition slice_13_to_last :: "'a list \<Rightarrow> 'a list" where
  "slice_13_to_last data = take (length data - 1 - 13) (drop 13 data)"

definition extract_impedance_data :: "string list \<Rightarrow> string list list" where
  "extract_impedance_data data = map (str_split CHR '','') (slice_13_to_last data)"

text \<open>
  The built-in conversions \<open>float\<close> and \<open>int\<close> are parameters of the model, here
  \<open>pyfloat\<close> and \<open>pyint\<close>: a string that is no number has no value, and the call
  raises \<open>ValueError\<close>.
\<close>

definition convert :: "(string \<Rightarrow> 'a option) \<Rightarrow> string \<Rightarrow> error + 'a" where
  "convert conv s = (case conv s of None \<Rightarrow> Inl ValueError | Some v \<Rightarrow> Inr v)"

text \<open>The loop of \<open>get_freq_react_data\<close>, with the two lists built so far.\<close>

fun freq_react_loop ::
  "(string \<Rightarrow> float64 option) \<Rightarrow> string list list \<Rightarrow> float64 list \<Rightarrow> float64 list \<Rightarrow>
     error + (float64 list \<times> float64 list)" where
  "freq_react_loop pyfloat [] freq react = Inr (freq, react)"
| "freq_react_loop pyfloat (sample # rest) freq react =
     ebind (getitem sample 1) (\<lambda>s1.
     ebind (convert pyfloat s1) (\<lambda>f.
     ebind (getitem sample 2) (\<lambda>s2.
     ebind (convert pyfloat s2) (\<lambda>x.
       freq_react_loop pyfloat rest (freq @ [f]) (react @ [x])))))"

definition get_freq_react_data ::
  "(string \<Rightarrow> float64 option) \<Rightarrow> string list list \<Rightarrow> error + (float64 list \<times> float64 list)" where
  "get_freq_react_data pyfloat impedance_data = freq_react_loop pyfloat impedance_data [] []"

text \<open>The expression \<open>data[i].split(' ')[1]\<close> of the constructor.\<close>

definition header_field :: "string list \<Rightarrow> nat \<Rightarrow> error + string" where
  "header_field data i = ebind (getitem data i) (\<lambda>line. getitem (str_split CHR '' '' line) 1)"

text \<open>
  The attributes the constructor has set once \<open>self.freq\<close> and \<open>self.react\<close> are
  there (the statements up to the call of \<open>get_freq_react_data\<close>).
\<close>

record sweep_data =
  height :: float64
  weight :: float64
  age :: int
  sex :: string
  bmi :: float64
  impedance_data :: "string list list"
  freq :: "float64 list"
  react :: "float64 list"

definition init_sweep ::
  "(string \<Rightarrow> float64 option) \<Rightarrow> (string \<Rightarrow> int option) \<Rightarrow> string list \<Rightarrow> error + sweep_data" where
  "init_sweep pyfloat pyint data =
     ebind (header_field data 2) (\<lambda>t2. ebind (convert pyfloat t2) (\<lambda>h.
     ebind (header_field data 3) (\<lambda>t3. ebind (convert pyfloat t3) (\<lambda>w.
     ebind (header_field data 4) (\<lambda>t4. ebind (convert pyint t4) (\<lambda>a.
     ebind (header_field data 5) (\<lambda>s.
     ebind (calculate_bmi h w) (\<lambda>b.
       let rows = extract_impedance_data data
       in ebind (get_freq_react_data pyfloat rows) (\<lambda>(fs, xs).
            Inr \<lparr>height = h, weight = w, age = a, sex = s, bmi = b,
                 impedance_data = rows, freq = fs, react = xs\<rparr>)))))))))"

text \<open>The object once the constructor has run: the attributes above and the computed ones.\<close>

record BIAnalysis = sweep_data +
  radius :: float64
  center :: "float64 \<times> float64"
  ffm :: float64
  ri :: float64
  re :: float64
  ecw :: float64
  icw :: float64
  tbw :: float64

definition init ::
  "(string \<Rightarrow> float64 option) \<Rightarrow> (string \<Rightarrow> int option) \<Rightarrow> solver \<Rightarrow> string \<Rightarrow> error + BIAnalysis" where
  "init pyfloat pyint leastsq content =
     ebind (init_sweep pyfloat pyint (read_file content)) (\<lambda>d.
     ebind (calculate_radius leastsq (freq d) (react d)) (\<lambda>(R, c).
     ebind (calculate_ffm (height d) (weight d) (age d) (freq d) (react d)) (\<lambda>m.
       let (r_i, r_e) = calculate_resistance c R
       in ebind (calculate_body_water (height d) (weight d) (bmi d) r_e r_i) (\<lambda>(e, i, t).
            Inr (sweep_data.extend d
                   \<lparr>radius = R, center = c, ffm = m, ri = r_i, re = r_e,
                    ecw = e, icw = i, tbw = t\<rparr>)))))"

section \<open>Command line\<close>

text \<open>
  The script is given one path. \<open>files\<close> is the set of paths that name an existing
  regular file (\<open>os.path.isfile\<close>). The script either prints its one error message or
  constructs the analysis, plots it and prints the summary; the test of the extension
  can raise.
\<close>

datatype action = Print_error_message | Run_analysis

definition main :: "string set \<Rightarrow> string \<Rightarrow> error + action" where
  "main files path =
     (if path \<notin> files then Inr Print_error_message
      else ebind (getitem (str_split CHR ''.'' path) 1) (\<lambda>ext.
             if ext \<noteq> ''mfu'' then Inr Print_error_message else Inr Run_analysis))"

section \<open>Notions of the specification\<close>

text \<open>
  The specification speaks of the whitespace-separated tokens of a line. This definition
  follows those words, not the code: a token is a maximal run of characters that are no
  whitespace.
\<close>

definition is_whitespace :: "char \<Rightarrow> bool" where
  "is_whitespace c = (c \<in> {CHR '' '', CHR 0x09, CHR 0x0A, CHR 0x0B, CHR 0x0C, CHR 0x0D})"

fun tokens_from :: "string \<Rightarrow> string \<Rightarrow> string list" where
  "tokens_from w [] = (if w = [] then [] else [w])"
| "tokens_from w (c # cs) =
     (if is_whitespace c then (if w = [] then tokens_from [] cs else w # tokens_from [] cs)
      else tokens_from (w @ [c]) cs)"

definition spec_whitespace_tokens :: "string \<Rightarrow> string list" where
  "spec_whitespace_tokens line = tokens_from [] line"

text \<open>
  The arithmetic mean, the Euclidean distance of the sample \<open>(f, x)\<close> from the centre
  \<open>(xc, yc)\<close>, the distances of all samples of a sweep, and the fat-free mass of one
  sample, as the specification writes them, over the reals.
\<close>

definition mean :: "real list \<Rightarrow> real" where
  "mean ys = sum_list ys / real (length ys)"

definition distance :: "real \<Rightarrow> real \<Rightarrow> real \<Rightarrow> real \<Rightarrow> real" where
  "distance xc yc f x = sqrt ((f - xc)\<^sup>2 + (x - yc)\<^sup>2)"

definition distances :: "real \<Rightarrow> real \<Rightarrow> real list \<Rightarrow> real list \<Rightarrow> real list" where
  "distances xc yc fs xs = map (\<lambda>(f, x). distance xc yc f x) (zip fs xs)"

definition ffm_sample :: "real \<Rightarrow> real \<Rightarrow> int \<Rightarrow> real \<Rightarrow> real \<Rightarrow> real" where
  "ffm_sample h w a f x =
     0.7374 * h\<^sup>2 / f + 0.1763 * w - 0.1773 * real_of_int a + 0.1198 * x - 2.4658"

section \<open>Arithmetic on finite values\<close>

lemma np_sum_Fin: "foldl np_add (Fin s) (map Fin ys) = Fin (s + sum_list ys)"
  by (induction ys arbitrary: s) (simp_all add: add.assoc)

lemma np_mean_Fin: "ys \<noteq> [] \<Longrightarrow> np_mean (map Fin ys) = Fin (mean ys)"
  by (simp add: np_mean_def np_sum_def np_sum_Fin mean_def)

lemma square_Fin: "square (Fin x) = Fin (x\<^sup>2)"
  by (simp add: square_def power2_eq_square)

lemma np_sub_Fin: "np_sub (Fin x) (Fin y) = Fin (x - y)"
  by (simp add: np_sub_def)

lemma sqrt_16: "sqrt 16 = 4"
  using real_sqrt_abs [of 4] by simp

lemma sqrt_9: "sqrt 9 = 3"
  using real_sqrt_abs [of 3] by simp

lemma ebind_Inr: "ebind (Inr v) k = k v"
  by (simp add: ebind_def)

lemma ebind_Inl: "ebind (Inl e) k = Inl e"
  by (simp add: ebind_def)

lemma float_div_Fin: "y \<noteq> 0 \<Longrightarrow> float_div (Fin x) (Fin y) = Inr (Fin (x / y))"
  by (simp add: float_div_def)

lemma getitem_map_Fin: "i < length ys \<Longrightarrow> getitem (map Fin ys) i = Inr (Fin (ys ! i))"
  by (simp add: getitem_def)

lemma sum_list_upt: "sum_list (map g [0..<n]) = (\<Sum>i<n. g i)"
  by (simp add: atLeast0LessThan interv_sum_list_conv_sum_set_nat)

section \<open>Resistance extraction: the intercepts\<close>

text \<open>
  C2. For a circle with finite centre \<open>(a, b)\<close> and radius \<open>r\<close> such that
  \<open>r\<^sup>2 \<ge> b\<^sup>2\<close> and the two intercepts differ, \<open>calculate_resistance\<close> returns
  \<open>Re = a + \<surd>(r\<^sup>2 - b\<^sup>2)\<close>, the larger intercept, and
  \<open>Ri = (x1 * Re) / (Re - x1)\<close> with \<open>x1 = a - \<surd>(r\<^sup>2 - b\<^sup>2)\<close>.
\<close>

theorem calculate_resistance_intercepts:
  assumes "b\<^sup>2 \<le> r\<^sup>2" and "a + sqrt (r\<^sup>2 - b\<^sup>2) \<noteq> a - sqrt (r\<^sup>2 - b\<^sup>2)"
  shows "calculate_resistance (Fin a, Fin b) (Fin r) =
           (let x1 = a - sqrt (r\<^sup>2 - b\<^sup>2); Re = a + sqrt (r\<^sup>2 - b\<^sup>2)
            in (Fin ((x1 * Re) / (Re - x1)), Fin Re))"
  using assms
  by (simp add: calculate_resistance_def Let_def square_Fin np_sub_Fin add.commute)

theorem calculate_resistance_intercepts_witness:
  "(3::real)\<^sup>2 \<le> 5\<^sup>2 \<and> (5::real) + sqrt (5\<^sup>2 - 3\<^sup>2) \<noteq> 5 - sqrt (5\<^sup>2 - 3\<^sup>2) \<and>
   calculate_resistance (Fin 5, Fin 3) (Fin 5) = (Fin (9 / 8), Fin 9)"
  using calculate_resistance_intercepts [of 3 5 5] by (simp add: sqrt_16)

text \<open>
  C6, as the specification states it, asks for an error when \<open>r\<^sup>2 < b\<^sup>2\<close> and when
  the intercepts coincide. The code returns a result in both cases: not-a-number twice for
  the circle of centre \<open>(0, 2)\<close> and radius \<open>1\<close>, and an infinite \<open>Ri\<close> for the
  circle of centre \<open>(1, 0)\<close> and radius \<open>0\<close>.
\<close>

theorem calculate_resistance_silent_counterexample:
  "calculate_resistance (Fin 0, Fin 2) (Fin 1) = (NaN, NaN) \<and>
   calculate_resistance (Fin 1, Fin 0) (Fin 0) = (PosInf, Fin 1)"
  by (simp add: calculate_resistance_def Let_def square_Fin np_sub_Fin signed_inf_def)

text \<open>
  C6, amended. \<open>calculate_resistance\<close> raises no error. For a finite centre \<open>(a, b)\<close> and
  radius \<open>r\<close>: when \<open>r\<^sup>2 < b\<^sup>2\<close> both \<open>Ri\<close> and \<open>Re\<close> are not-a-number; when
  \<open>r\<^sup>2 = b\<^sup>2\<close>, so that the intercepts coincide, \<open>Re = a\<close> and \<open>Ri\<close> is plus
  infinity, or not-a-number when \<open>a = 0\<close>.
\<close>

theorem calculate_resistance_no_error:
  "(r\<^sup>2 < b\<^sup>2 \<longrightarrow> calculate_resistance (Fin a, Fin b) (Fin r) = (NaN, NaN)) \<and>
   (r\<^sup>2 = b\<^sup>2 \<longrightarrow>
      calculate_resistance (Fin a, Fin b) (Fin r) = (if a = 0 then NaN else PosInf, Fin a))"
  by (simp add: calculate_resistance_def Let_def square_Fin np_sub_Fin signed_inf_def)

theorem calculate_resistance_no_error_witness:
  "(1::real)\<^sup>2 < 2\<^sup>2 \<and> calculate_resistance (Fin 7, Fin 2) (Fin 1) = (NaN, NaN) \<and>
   (2::real)\<^sup>2 = 2\<^sup>2 \<and> calculate_resistance (Fin 7, Fin 2) (Fin 2) = (PosInf, Fin 7)"
  using calculate_resistance_no_error [of 1 2 7] calculate_resistance_no_error [of 2 2 7]
  by simp

section \<open>Fat-free mass\<close>

text \<open>On finite samples with no zero frequency the loop appends one value per index.\<close>

lemma ffm_loop_Fin:
  assumes "length xs = length fs"
    and "\<forall>i\<in>set idx. i < length fs \<and> fs ! i \<noteq> 0"
  shows "ffm_loop (Fin h) (Fin w) a (map Fin fs) (map Fin xs) idx (map Fin acc) =
           Inr (map Fin (acc @ map (\<lambda>i. ffm_sample h w a (fs ! i) (xs ! i)) idx))"
  using assms(2)
proof (induction idx arbitrary: acc)
  case Nil
  then show ?case by simp
next
  case (Cons i idx)
  have i: "i < length fs" "fs ! i \<noteq> 0" "i < length xs"
    using Cons.prems assms(1) by simp_all
  have rest: "\<forall>j\<in>set idx. j < length fs \<and> fs ! j \<noteq> 0"
    using Cons.prems by simp
  have step: "ffm_loop (Fin h) (Fin w) a (map Fin fs) (map Fin xs) (i # idx) (map Fin acc) =
      ffm_loop (Fin h) (Fin w) a (map Fin fs) (map Fin xs) idx
        (map Fin (acc @ [ffm_sample h w a (fs ! i) (xs ! i)]))"
    using i
    by (simp add: getitem_map_Fin ebind_Inr float_div_Fin square_Fin np_sub_Fin
        Let_def ffm_sample_def)
  show ?case
    unfolding step
    using Cons.IH [OF rest, of "acc @ [ffm_sample h w a (fs ! i) (xs ! i)]"] by simp
qed

text \<open>
  C3. For a sweep of \<open>n \<ge> 1\<close> finite samples with no zero frequency, and any finite
  height and weight and any age, \<open>calculate_ffm\<close> returns the arithmetic mean over the
  samples of \<open>0.7374 * height\<^sup>2 / frequency + 0.1763 * weight - 0.1773 * age +
  0.1198 * reactance - 2.4658\<close>; when all samples are the same sample, the result is
  the value of that formula at it.
\<close>

theorem calculate_ffm_mean:
  assumes "length xs = length fs" and "1 \<le> length fs" and "\<forall>f\<in>set fs. f \<noteq> 0"
  shows "calculate_ffm (Fin h) (Fin w) a (map Fin fs) (map Fin xs) =
           Inr (Fin ((\<Sum>i<length fs. ffm_sample h w a (fs ! i) (xs ! i)) / real (length fs))) \<and>
         ((\<forall>i<length fs. fs ! i = f \<and> xs ! i = x) \<longrightarrow>
            calculate_ffm (Fin h) (Fin w) a (map Fin fs) (map Fin xs) =
              Inr (Fin (ffm_sample h w a f x)))"
proof -
  let ?g = "\<lambda>i. ffm_sample h w a (fs ! i) (xs ! i)"
  have idx: "\<forall>i\<in>set [0..<length fs]. i < length fs \<and> fs ! i \<noteq> 0"
    using assms(3) by simp
  have loop: "ffm_loop (Fin h) (Fin w) a (map Fin fs) (map Fin xs) [0..<length fs] [] =
      Inr (map Fin (map ?g [0..<length fs]))"
    using ffm_loop_Fin [OF assms(1) idx, of h w a "[]"] by simp
  have ne: "map ?g [0..<length fs] \<noteq> []"
    using assms(2) by (cases fs) simp_all
  have main: "calculate_ffm (Fin h) (Fin w) a (map Fin fs) (map Fin xs) =
      Inr (Fin ((\<Sum>i<length fs. ?g i) / real (length fs)))"
    using np_mean_Fin [OF ne]
    by (simp add: calculate_ffm_def loop ebind_Inr mean_def sum_list_upt del: map_map)
  have same: "(\<Sum>i<length fs. ?g i) / real (length fs) = ffm_sample h w a f x"
    if "\<forall>i<length fs. fs ! i = f \<and> xs ! i = x"
  proof -
    have "(\<Sum>i<length fs. ?g i) = (\<Sum>i<length fs. ffm_sample h w a f x)"
      using that by (intro sum.cong) simp_all
    moreover have "real (length fs) \<noteq> 0"
      using assms(2) by (cases fs) simp_all
    ultimately show ?thesis by simp
  qed
  show ?thesis using main same by simp
qed

theorem calculate_ffm_mean_witness:
  "length [4, 4 :: real] = length [50, 50 :: real] \<and> 1 \<le> length [50, 50 :: real] \<and>
   (50 :: real) \<noteq> 0 \<and>
   calculate_ffm (Fin 170) (Fin 70) 30 (map Fin [50, 50]) (map Fin [4, 4]) =
     Inr (Fin (ffm_sample 170 70 30 50 4))"
  using calculate_ffm_mean [of "[4, 4]" "[50, 50]" 170 70 30 50 4]
  by (simp add: less_Suc_eq)

section \<open>Body water\<close>

text \<open>
  C4. For finite \<open>height > 0\<close>, \<open>weight > 0\<close>, \<open>Re > 0\<close> and \<open>Ri > 0\<close>,
  \<open>calculate_bmi\<close> returns \<open>bmi = weight / (height / 100)\<^sup>2\<close>, and with that value
  \<open>calculate_body_water\<close> returns
  \<open>ecw = (0.188 / bmi + 0.2883) * ((height\<^sup>2 * \<surd>weight) / Re) ^ (2/3)\<close>,
  \<open>icw = (5.8758 / bmi + 0.4194) * ((height\<^sup>2 * \<surd>weight) / Ri) ^ (2/3)\<close> and
  \<open>tbw = ecw + icw\<close>.
\<close>

theorem calculate_body_water_formulas:
  assumes "0 < h" and "0 < w" and "0 < r_e" and "0 < r_i"
  shows "calculate_bmi (Fin h) (Fin w) = Inr (Fin (w / (h / 100)\<^sup>2)) \<and>
         calculate_body_water (Fin h) (Fin w) (Fin (w / (h / 100)\<^sup>2)) (Fin r_e) (Fin r_i) =
           (let bmi = w / (h / 100)\<^sup>2;
                ecw = (0.188 / bmi + 0.2883) * ((h\<^sup>2 * sqrt w) / r_e) powr (2 / 3);
                icw = (5.8758 / bmi + 0.4194) * ((h\<^sup>2 * sqrt w) / r_i) powr (2 / 3)
            in Inr (Fin ecw, Fin icw, Fin (ecw + icw)))"
proof -
  have bmi: "calculate_bmi (Fin h) (Fin w) = Inr (Fin (w / (h / 100)\<^sup>2))"
    using assms(1) by (simp add: calculate_bmi_def float_div_def ebind_Inr square_Fin)
  have pos: "w / (h / 100)\<^sup>2 \<noteq> 0" "\<not> h\<^sup>2 * sqrt w / r_e < 0" "\<not> h\<^sup>2 * sqrt w / r_i < 0"
    using assms by (simp_all add: not_less)
  have "calculate_body_water (Fin h) (Fin w) (Fin (w / (h / 100)\<^sup>2)) (Fin r_e) (Fin r_i) =
          (let bmi = w / (h / 100)\<^sup>2;
                ecw = (0.188 / bmi + 0.2883) * ((h\<^sup>2 * sqrt w) / r_e) powr (2 / 3);
                icw = (5.8758 / bmi + 0.4194) * ((h\<^sup>2 * sqrt w) / r_i) powr (2 / 3)
            in Inr (Fin ecw, Fin icw, Fin (ecw + icw)))"
    using assms pos
    by (simp add: calculate_body_water_def float_div_def ebind_Inr square_Fin Let_def)
  with bmi show ?thesis by simp
qed

theorem calculate_body_water_formulas_witness:
  "(0::real) < 100 \<and> (0::real) < 4 \<and> (0::real) < 20000 \<and>
   calculate_bmi (Fin 100) (Fin 4) = Inr (Fin 4) \<and>
   calculate_body_water (Fin 100) (Fin 4) (Fin 4) (Fin 20000) (Fin 20000) =
     Inr (Fin 0.3353, Fin 1.88835, Fin 2.22365)"
  using calculate_body_water_formulas [of 100 4 20000 20000]
  by (simp add: Let_def)

section \<open>Circle fit: what is handed to the solver and what is returned\<close>

lemma calc_R_Fin:
  "calc_R (map Fin fs) (map Fin xs) (Fin xc) (Fin yc) = map Fin (distances xc yc fs xs)"
proof -
  have "zip (map Fin fs) (map Fin xs) = map (\<lambda>(f, x). (Fin f, Fin x)) (zip fs xs)"
    by (simp add: zip_map_map)
  then show ?thesis
    by (simp add: calc_R_def distances_def distance_def square_Fin np_sub_Fin
        case_prod_unfold comp_def not_less)
qed

lemma map_np_sub_Fin: "map (\<lambda>R. np_sub R (Fin m)) (map Fin ds) = map Fin (map (\<lambda>d. d - m) ds)"
  by (simp add: np_sub_Fin comp_def)

lemma distances_length: "length xs = length fs \<Longrightarrow> length (distances xc yc fs xs) = length fs"
  by (simp add: distances_def)

lemma calculate_radius_unfold:
  "calculate_radius leastsq F X =
     ebind (leastsq (f_2 F X) (np_mean F, Fin 0))
       (\<lambda>(c, ier). Inr (np_mean (calc_R F X (fst c) (snd c)), c))"
  by (simp add: calculate_radius_def Let_def)

text \<open>
  C1. For a sweep of at least 3 finite samples: the residual function that
  \<open>calculate_radius\<close> hands to the least-squares routine has, at a candidate centre,
  for each sample the entry \<open>R\<^sub>i\<close> minus the mean of all \<open>R\<^sub>j\<close>, where \<open>R\<^sub>i\<close> is the
  distance of sample \<open>i\<close> from the centre; the routine is started at
  \<open>(mean(frequency), 0)\<close>; and when it returns a centre, \<open>calculate_radius\<close> returns the
  mean of the distances from that centre, together with the centre.
\<close>

theorem calculate_radius_least_squares:
  assumes "length xs = length fs" and "3 \<le> length fs"
  shows "f_2 (map Fin fs) (map Fin xs) (Fin xc, Fin yc) =
           map Fin (map (\<lambda>d. d - mean (distances xc yc fs xs)) (distances xc yc fs xs)) \<and>
         (leastsq (f_2 (map Fin fs) (map Fin xs)) (Fin (mean fs), Fin 0) =
            Inr ((Fin cx, Fin cy), ier) \<longrightarrow>
          calculate_radius leastsq (map Fin fs) (map Fin xs) =
            Inr (Fin (mean (distances cx cy fs xs)), (Fin cx, Fin cy)))"
proof -
  have fs: "fs \<noteq> []"
    using assms(2) by auto
  have ds: "distances u v fs xs \<noteq> []" for u v
    using distances_length [OF assms(1), of u v] fs by auto
  have resid: "f_2 (map Fin fs) (map Fin xs) (Fin xc, Fin yc) =
      map Fin (map (\<lambda>d. d - mean (distances xc yc fs xs)) (distances xc yc fs xs))"
    by (simp add: f_2_def Let_def calc_R_Fin np_mean_Fin [OF ds] map_np_sub_Fin del: map_map)
  have call: "calculate_radius leastsq (map Fin fs) (map Fin xs) =
      ebind (leastsq (f_2 (map Fin fs) (map Fin xs)) (Fin (mean fs), Fin 0))
        (\<lambda>(c, ier). Inr (np_mean (calc_R (map Fin fs) (map Fin xs) (fst c) (snd c)), c))"
    by (simp add: calculate_radius_unfold np_mean_Fin [OF fs])
  have fit: "calculate_radius leastsq (map Fin fs) (map Fin xs) =
      Inr (Fin (mean (distances cx cy fs xs)), (Fin cx, Fin cy))"
    if "leastsq (f_2 (map Fin fs) (map Fin xs)) (Fin (mean fs), Fin 0) = Inr ((Fin cx, Fin cy), ier)"
    unfolding call that by (simp add: ebind_Inr calc_R_Fin np_mean_Fin [OF ds])
  show ?thesis using resid fit by blast
qed

text \<open>
  An instance: the samples \<open>(0, 0)\<close>, \<open>(3, 4)\<close>, \<open>(6, 0)\<close> and a routine that reports
  success at its starting point \<open>(3, 0)\<close>. The distances are 3, 4 and 3.
\<close>

theorem calculate_radius_least_squares_witness:
  "length [0, 4, 0 :: real] = length [0, 3, 6 :: real] \<and> 3 \<le> length [0, 3, 6 :: real] \<and>
   f_2 (map Fin [0, 3, 6]) (map Fin [0, 4, 0]) (Fin 3, Fin 0) =
     map Fin [- (1 / 3), 2 / 3, - (1 / 3)] \<and>
   calculate_radius (\<lambda>residuals start. Inr (start, 1)) (map Fin [0, 3, 6]) (map Fin [0, 4, 0]) =
     Inr (Fin (10 / 3), (Fin 3, Fin 0))"
  using calculate_radius_least_squares
     [of "[0, 4, 0]" "[0, 3, 6]" 3 0 "\<lambda>residuals start. Inr (start, 1)" 3 0 1]
  by (simp add: mean_def distances_def distance_def sqrt_9 sqrt_16)

text \<open>
  C7, as the specification states it, asks for an error whenever the routine does not
  converge. Here the routine gives up at its starting point with \<open>ier = 5\<close> (the budget
  of calls is used up), and \<open>calculate_radius\<close> returns that point and the mean distance
  from it all the same.
\<close>

theorem calculate_radius_not_converged_counterexample:
  "calculate_radius (\<lambda>residuals start. Inr (start, 5)) [Fin 0, Fin 3, Fin 6] [Fin 0, Fin 4, Fin 0] =
     Inr (Fin (10 / 3), (Fin 3, Fin 0))"
  by (simp add: calculate_radius_unfold ebind_Inr np_mean_def np_sum_def calc_R_def
      square_Fin np_sub_Fin sqrt_9 sqrt_16)

text \<open>
  C7, amended. \<open>calculate_radius\<close> does not look at the status flag: whatever flag the
  routine returns with a centre, converged or not, \<open>calculate_radius\<close> returns the mean
  distance from that centre and the centre. It fails only when the routine itself raises,
  and then with the routine's exception.
\<close>

theorem calculate_radius_ignores_ier:
  "(leastsq (f_2 F X) (np_mean F, Fin 0) = Inr (c, ier) \<longrightarrow>
      calculate_radius leastsq F X =
        Inr (np_mean (calc_R F X (fst c) (snd c)), c)) \<and>
   (leastsq (f_2 F X) (np_mean F, Fin 0) = Inl e \<longrightarrow>
      calculate_radius leastsq F X = Inl e)"
  by (simp add: calculate_radius_unfold ebind_Inr ebind_Inl)

text \<open>
  An instance: a routine that stops at its starting point is handled alike with the flag
  5 (no convergence) and with the flag 1 (convergence); a routine that raises is passed on.
\<close>

theorem calculate_radius_ignores_ier_witness:
  "calculate_radius (\<lambda>residuals start. Inr (start, 5)) [Fin 0, Fin 3, Fin 6] [Fin 0, Fin 4, Fin 0] =
     Inr (np_mean (calc_R [Fin 0, Fin 3, Fin 6] [Fin 0, Fin 4, Fin 0] (Fin 3) (Fin 0)), (Fin 3, Fin 0)) \<and>
   calculate_radius (\<lambda>residuals start. Inr (start, 1)) [Fin 0, Fin 3, Fin 6] [Fin 0, Fin 4, Fin 0] =
     Inr (np_mean (calc_R [Fin 0, Fin 3, Fin 6] [Fin 0, Fin 4, Fin 0] (Fin 3) (Fin 0)), (Fin 3, Fin 0)) \<and>
   calculate_radius (\<lambda>residuals start. Inl TypeError) [] [] = Inl TypeError"
  using calculate_radius_ignores_ier
     [of "\<lambda>residuals start. Inr (start, 5)" "[Fin 0, Fin 3, Fin 6]" "[Fin 0, Fin 4, Fin 0]"
         "(Fin 3, Fin 0)" 5]
    calculate_radius_ignores_ier
     [of "\<lambda>residuals start. Inr (start, 1)" "[Fin 0, Fin 3, Fin 6]" "[Fin 0, Fin 4, Fin 0]"
         "(Fin 3, Fin 0)" 1]
    calculate_radius_ignores_ier
     [of "\<lambda>residuals start. Inl TypeError" "[]" "[]" _ _ TypeError]
  by (simp add: np_mean_def np_sum_def)

section \<open>Reading the sweep file: when it succeeds and how it fails\<close>

lemma ebind_eq_Inr: "ebind m k = Inr v \<longleftrightarrow> (\<exists>x. m = Inr x \<and> k x = Inr v)"
  by (cases m) (simp_all add: ebind_def)

lemma getitem_eq_Inr: "getitem xs i = Inr v \<longleftrightarrow> i < length xs \<and> v = xs ! i"
  by (auto simp: getitem_def)

lemma getitem_eq_Inl: "getitem xs i = Inl e \<longleftrightarrow> length xs \<le> i \<and> e = IndexError"
  by (auto simp: getitem_def)

lemma convert_eq_Inr: "convert conv s = Inr v \<longleftrightarrow> conv s = Some v"
  by (simp add: convert_def split: option.splits)

lemma convert_eq_Inl: "convert conv s = Inl e \<longleftrightarrow> conv s = None \<and> e = ValueError"
  by (auto simp: convert_def split: option.splits)

lemma header_field_eq_Inr:
  "header_field data i = Inr t \<longleftrightarrow>
     i < length data \<and> 1 < length (str_split CHR '' '' (data ! i)) \<and>
     t = str_split CHR '' '' (data ! i) ! 1"
  by (auto simp: header_field_def ebind_eq_Inr getitem_eq_Inr)

lemma slice_13_to_last_nth: "slice_13_to_last data = map (\<lambda>i. data ! i) [13..<length data - 1]"
  by (rule nth_equalityI) (auto simp: slice_13_to_last_def)

lemma freq_react_loop_append:
  assumes "\<forall>row\<in>set good. 3 \<le> length row \<and> pf (row ! 1) \<noteq> None \<and> pf (row ! 2) \<noteq> None"
  shows "freq_react_loop pf (good @ others) F X =
           freq_react_loop pf others (F @ map (\<lambda>row. the (pf (row ! 1))) good)
             (X @ map (\<lambda>row. the (pf (row ! 2))) good)"
  using assms
proof (induction good arbitrary: F X)
  case Nil
  then show ?case by simp
next
  case (Cons row good)
  obtain f x where fx: "pf (row ! 1) = Some f" "pf (row ! 2) = Some x" and len: "3 \<le> length row"
    using Cons.prems by auto
  have step: "freq_react_loop pf ((row # good) @ others) F X =
      freq_react_loop pf (good @ others) (F @ [f]) (X @ [x])"
    using fx len by (simp add: getitem_def ebind_Inr convert_def)
  have rest: "\<forall>r\<in>set good. 3 \<le> length r \<and> pf (r ! 1) \<noteq> None \<and> pf (r ! 2) \<noteq> None"
    using Cons.prems by simp
  show ?case
    unfolding step using Cons.IH [OF rest, of "F @ [f]" "X @ [x]"] fx by simp
qed

lemma freq_react_loop_success:
  "freq_react_loop pf rows F X = Inr r \<Longrightarrow>
     \<forall>row\<in>set rows. 3 \<le> length row \<and> pf (row ! 1) \<noteq> None \<and> pf (row ! 2) \<noteq> None"
proof (induction rows arbitrary: F X)
  case Nil
  then show ?case by simp
next
  case (Cons row rows)
  from Cons.prems obtain f x where
    row: "1 < length row" "pf (row ! 1) = Some f" "2 < length row" "pf (row ! 2) = Some x"
    and rest: "freq_react_loop pf rows (F @ [f]) (X @ [x]) = Inr r"
    by (auto simp: ebind_eq_Inr getitem_eq_Inr convert_eq_Inr)
  from Cons.IH [OF rest] row show ?case by simp
qed

lemma freq_react_loop_short_row:
  assumes "length row < 3" and "length row = 2 \<longrightarrow> pf (row ! 1) \<noteq> None"
  shows "freq_react_loop pf (row # rest) F X = Inl IndexError"
proof (cases "length row = 2")
  case True
  then obtain f where "pf (row ! 1) = Some f"
    using assms(2) by auto
  then show ?thesis
    using True by (simp add: getitem_def ebind_Inr ebind_Inl convert_def)
next
  case False
  then have "length row \<le> 1" using assms(1) by simp
  then show ?thesis
    by (simp add: getitem_def ebind_Inl)
qed

lemma calculate_bmi_nonzero:
  "h \<noteq> Fin 0 \<Longrightarrow> calculate_bmi h w = Inr (np_div w (square (np_div h (Fin 100))))"
  by (cases h) (simp_all add: calculate_bmi_def float_div_def ebind_Inr square_def signed_inf_def)

lemma calculate_bmi_eq_Inr:
  "calculate_bmi h w = Inr b \<longleftrightarrow> h \<noteq> Fin 0 \<and> b = np_div w (square (np_div h (Fin 100)))"
proof (cases "h = Fin 0")
  case True
  then show ?thesis
    by (simp add: calculate_bmi_def float_div_def ebind_Inr square_def)
next
  case False
  then show ?thesis using calculate_bmi_nonzero [OF False, of w] by auto
qed

lemma init_sweep_ok:
  assumes "6 \<le> length data"
    and "\<forall>i\<in>{2, 3, 4, 5}. 2 \<le> length (str_split CHR '' '' (data ! i))"
    and "pyfloat (str_split CHR '' '' (data ! 2) ! 1) = Some h"
    and "pyfloat (str_split CHR '' '' (data ! 3) ! 1) = Some w"
    and "pyint (str_split CHR '' '' (data ! 4) ! 1) = Some a"
    and "h \<noteq> Fin 0"
    and "\<forall>i\<in>{13..<length data - 1}.
           3 \<le> length (str_split CHR '','' (data ! i)) \<and>
           pyfloat (str_split CHR '','' (data ! i) ! 1) \<noteq> None \<and>
           pyfloat (str_split CHR '','' (data ! i) ! 2) \<noteq> None"
  shows "init_sweep pyfloat pyint data =
           Inr \<lparr>height = h, weight = w, age = a,
                sex = str_split CHR '' '' (data ! 5) ! 1,
                bmi = np_div w (square (np_div h (Fin 100))),
                impedance_data = map (\<lambda>i. str_split CHR '','' (data ! i)) [13..<length data - 1],
                freq = map (\<lambda>i. the (pyfloat (str_split CHR '','' (data ! i) ! 1)))
                         [13..<length data - 1],
                react = map (\<lambda>i. the (pyfloat (str_split CHR '','' (data ! i) ! 2)))
                          [13..<length data - 1]\<rparr>"
proof -
  let ?rows = "map (\<lambda>i. str_split CHR '','' (data ! i)) [13..<length data - 1]"
  have hdr: "header_field data 2 = Inr (str_split CHR '' '' (data ! 2) ! 1)"
    "header_field data 3 = Inr (str_split CHR '' '' (data ! 3) ! 1)"
    "header_field data 4 = Inr (str_split CHR '' '' (data ! 4) ! 1)"
    "header_field data 5 = Inr (str_split CHR '' '' (data ! 5) ! 1)"
    using assms(1,2) by (simp_all add: header_field_eq_Inr)
  have rows: "extract_impedance_data data = ?rows"
    by (simp add: extract_impedance_data_def slice_13_to_last_nth comp_def)
  have good: "\<forall>row\<in>set ?rows. 3 \<le> length row \<and> pyfloat (row ! 1) \<noteq> None \<and> pyfloat (row ! 2) \<noteq> None"
    using assms(7) by auto
  have loop: "get_freq_react_data pyfloat ?rows =
      Inr (map (\<lambda>row. the (pyfloat (row ! 1))) ?rows, map (\<lambda>row. the (pyfloat (row ! 2))) ?rows)"
    using freq_react_loop_append [OF good, of "[]" "[]" "[]"]
    by (simp add: get_freq_react_data_def del: map_map)
  have conv: "convert pyfloat (str_split CHR '' '' (data ! 2) ! 1) = Inr h"
    "convert pyfloat (str_split CHR '' '' (data ! 3) ! 1) = Inr w"
    "convert pyint (str_split CHR '' '' (data ! 4) ! 1) = Inr a"
    using assms(3,4,5) by (simp_all add: convert_def)
  show ?thesis
    unfolding init_sweep_def hdr ebind_Inr conv calculate_bmi_nonzero [OF assms(6)] rows loop Let_def
    by (simp add: comp_def)
qed

lemma init_sweep_success:
  assumes "init_sweep pyfloat pyint data = Inr d"
  shows "6 \<le> length data \<and>
         (\<forall>i\<in>{2, 3, 4, 5}. 2 \<le> length (str_split CHR '' '' (data ! i))) \<and>
         pyfloat (str_split CHR '' '' (data ! 2) ! 1) = Some (height d) \<and>
         pyfloat (str_split CHR '' '' (data ! 3) ! 1) = Some (weight d) \<and>
         pyint (str_split CHR '' '' (data ! 4) ! 1) = Some (age d) \<and>
         height d \<noteq> Fin 0 \<and>
         (\<forall>line\<in>set (slice_13_to_last data).
            3 \<le> length (str_split CHR '','' line) \<and>
            pyfloat (str_split CHR '','' line ! 1) \<noteq> None \<and>
            pyfloat (str_split CHR '','' line ! 2) \<noteq> None)"
proof -
  from assms obtain h w a s b fx where
    h: "header_field data 2 = Inr (str_split CHR '' '' (data ! 2) ! 1)"
       "1 < length (str_split CHR '' '' (data ! 2))"
       "pyfloat (str_split CHR '' '' (data ! 2) ! 1) = Some h"
    and w: "1 < length (str_split CHR '' '' (data ! 3))"
       "pyfloat (str_split CHR '' '' (data ! 3) ! 1) = Some w"
    and a: "1 < length (str_split CHR '' '' (data ! 4))"
       "pyint (str_split CHR '' '' (data ! 4) ! 1) = Some a"
    and s: "5 < length data" "1 < length (str_split CHR '' '' (data ! 5))"
    and b: "calculate_bmi h w = Inr b"
    and loop: "get_freq_react_data pyfloat (extract_impedance_data data) = Inr fx"
    and d: "d = \<lparr>height = h, weight = w, age = a, sex = s, bmi = b,
                impedance_data = extract_impedance_data data, freq = fst fx, react = snd fx\<rparr>"
    by (auto simp: init_sweep_def ebind_eq_Inr header_field_eq_Inr convert_eq_Inr Let_def
        split: prod.splits)
  have rows: "\<forall>row\<in>set (extract_impedance_data data).
      3 \<le> length row \<and> pyfloat (row ! 1) \<noteq> None \<and> pyfloat (row ! 2) \<noteq> None"
    using freq_react_loop_success [of pyfloat "extract_impedance_data data" "[]" "[]" fx] loop
    by (simp add: get_freq_react_data_def)
  have "h \<noteq> Fin 0"
    using b by (simp add: calculate_bmi_eq_Inr)
  then show ?thesis
    using h w a s rows by (simp add: d extract_impedance_data_def)
qed

lemma ebind_eq_Inl: "ebind m k = Inl e \<longleftrightarrow> m = Inl e \<or> (\<exists>x. m = Inr x \<and> k x = Inl e)"
  by (cases m) (simp_all add: ebind_def)

lemma header_field_eq_Inl:
  "header_field data i = Inl e \<longleftrightarrow>
     e = IndexError \<and> (length data \<le> i \<or> length (str_split CHR '' '' (data ! i)) \<le> 1)"
  by (auto simp: header_field_def ebind_eq_Inl getitem_eq_Inl getitem_eq_Inr)

lemma init_sweep_short:
  assumes "length data < 6"
  shows "init_sweep pyfloat pyint data = Inl IndexError \<or>
         init_sweep pyfloat pyint data = Inl ValueError"
proof (cases "init_sweep pyfloat pyint data")
  case (Inr d)
  then show ?thesis using init_sweep_success [OF Inr] assms by simp
next
  case (Inl e)
  have no5: "header_field data 5 = Inl IndexError"
    using assms by (simp add: header_field_eq_Inl)
  from Inl have "e = IndexError \<or> e = ValueError"
    unfolding init_sweep_def
    by (auto simp: ebind_eq_Inl no5 header_field_eq_Inl convert_eq_Inl)
  with Inl show ?thesis by auto
qed

lemma init_sweep_bad_height:
  assumes "2 < length data" and "2 \<le> length (str_split CHR '' '' (data ! 2))"
    and "pyfloat (str_split CHR '' '' (data ! 2) ! 1) = None"
  shows "init_sweep pyfloat pyint data = Inl ValueError"
proof -
  have hdr: "header_field data 2 = Inr (str_split CHR '' '' (data ! 2) ! 1)"
    using assms(1,2) by (simp add: header_field_eq_Inr)
  have conv: "convert pyfloat (str_split CHR '' '' (data ! 2) ! 1) = Inl ValueError"
    using assms(3) by (simp add: convert_def)
  show ?thesis
    unfolding init_sweep_def hdr ebind_Inr conv ebind_Inl by (rule refl)
qed

lemma np_mean_Nil: "np_mean [] = NaN"
  by (simp add: np_mean_def np_sum_def)

lemma init_sweep_bad_weight:
  assumes "3 < length data"
    and "2 \<le> length (str_split CHR '' '' (data ! 2))"
    and "pyfloat (str_split CHR '' '' (data ! 2) ! 1) \<noteq> None"
    and "2 \<le> length (str_split CHR '' '' (data ! 3))"
    and "pyfloat (str_split CHR '' '' (data ! 3) ! 1) = None"
  shows "init_sweep pyfloat pyint data = Inl ValueError"
proof -
  obtain h where h: "pyfloat (str_split CHR '' '' (data ! 2) ! 1) = Some h"
    using assms(3) by auto
  have hdr: "header_field data 2 = Inr (str_split CHR '' '' (data ! 2) ! 1)"
    "header_field data 3 = Inr (str_split CHR '' '' (data ! 3) ! 1)"
    using assms(1,2,4) by (simp_all add: header_field_eq_Inr)
  have conv: "convert pyfloat (str_split CHR '' '' (data ! 2) ! 1) = Inr h"
    "convert pyfloat (str_split CHR '' '' (data ! 3) ! 1) = Inl ValueError"
    using h assms(5) by (simp_all add: convert_def)
  show ?thesis
    unfolding init_sweep_def hdr ebind_Inr conv ebind_Inl by (rule refl)
qed

lemma init_sweep_bad_age:
  assumes "4 < length data"
    and "2 \<le> length (str_split CHR '' '' (data ! 2))"
    and "pyfloat (str_split CHR '' '' (data ! 2) ! 1) \<noteq> None"
    and "2 \<le> length (str_split CHR '' '' (data ! 3))"
    and "pyfloat (str_split CHR '' '' (data ! 3) ! 1) \<noteq> None"
    and "2 \<le> length (str_split CHR '' '' (data ! 4))"
    and "pyint (str_split CHR '' '' (data ! 4) ! 1) = None"
  shows "init_sweep pyfloat pyint data = Inl ValueError"
proof -
  obtain h w where hw: "pyfloat (str_split CHR '' '' (data ! 2) ! 1) = Some h"
    "pyfloat (str_split CHR '' '' (data ! 3) ! 1) = Some w"
    using assms(3,5) by auto
  have hdr: "header_field data 2 = Inr (str_split CHR '' '' (data ! 2) ! 1)"
    "header_field data 3 = Inr (str_split CHR '' '' (data ! 3) ! 1)"
    "header_field data 4 = Inr (str_split CHR '' '' (data ! 4) ! 1)"
    using assms(1,2,4,6) by (simp_all add: header_field_eq_Inr)
  have conv: "convert pyfloat (str_split CHR '' '' (data ! 2) ! 1) = Inr h"
    "convert pyfloat (str_split CHR '' '' (data ! 3) ! 1) = Inr w"
    "convert pyint (str_split CHR '' '' (data ! 4) ! 1) = Inl ValueError"
    using hw assms(7) by (simp_all add: convert_def)
  show ?thesis
    unfolding init_sweep_def hdr ebind_Inr conv ebind_Inl by (rule refl)
qed

lemma freq_react_loop_bad_row:
  assumes "(2 \<le> length row \<and> pf (row ! 1) = None) \<or> (3 \<le> length row \<and> pf (row ! 2) = None)"
  shows "freq_react_loop pf (row # rest) F X = Inl ValueError"
proof (cases "pf (row ! 1)")
  case None
  then have "2 \<le> length row" using assms by auto
  then show ?thesis
    using None by (simp add: getitem_def ebind_Inr ebind_Inl convert_def)
next
  case (Some f)
  then have "3 \<le> length row" "pf (row ! 2) = None" using assms by auto
  then show ?thesis
    using Some by (simp add: getitem_def ebind_Inr ebind_Inl convert_def)
qed

lemma init_sweep_bad_sample:
  assumes "6 \<le> length data"
    and "\<forall>i\<in>{2, 3, 4, 5}. 2 \<le> length (str_split CHR '' '' (data ! i))"
    and "pyfloat (str_split CHR '' '' (data ! 2) ! 1) = Some h"
    and "pyfloat (str_split CHR '' '' (data ! 3) ! 1) \<noteq> None"
    and "pyint (str_split CHR '' '' (data ! 4) ! 1) \<noteq> None"
    and "h \<noteq> Fin 0"
    and "13 \<le> k" and "k < length data - 1"
    and "\<forall>i\<in>{13..<k}.
           3 \<le> length (str_split CHR '','' (data ! i)) \<and>
           pyfloat (str_split CHR '','' (data ! i) ! 1) \<noteq> None \<and>
           pyfloat (str_split CHR '','' (data ! i) ! 2) \<noteq> None"
    and "(2 \<le> length (str_split CHR '','' (data ! k)) \<and>
            pyfloat (str_split CHR '','' (data ! k) ! 1) = None) \<or>
         (3 \<le> length (str_split CHR '','' (data ! k)) \<and>
            pyfloat (str_split CHR '','' (data ! k) ! 2) = None)"
  shows "init_sweep pyfloat pyint data = Inl ValueError"
proof -
  let ?row = "\<lambda>i. str_split CHR '','' (data ! i)"
  obtain w a where wa: "pyfloat (str_split CHR '' '' (data ! 3) ! 1) = Some w"
    "pyint (str_split CHR '' '' (data ! 4) ! 1) = Some a"
    using assms(4,5) by auto
  have hdr: "header_field data 2 = Inr (str_split CHR '' '' (data ! 2) ! 1)"
    "header_field data 3 = Inr (str_split CHR '' '' (data ! 3) ! 1)"
    "header_field data 4 = Inr (str_split CHR '' '' (data ! 4) ! 1)"
    "header_field data 5 = Inr (str_split CHR '' '' (data ! 5) ! 1)"
    using assms(1,2) by (simp_all add: header_field_eq_Inr)
  have conv: "convert pyfloat (str_split CHR '' '' (data ! 2) ! 1) = Inr h"
    "convert pyfloat (str_split CHR '' '' (data ! 3) ! 1) = Inr w"
    "convert pyint (str_split CHR '' '' (data ! 4) ! 1) = Inr a"
    using assms(3) wa by (simp_all add: convert_def)
  have idx: "[13..<length data - 1] = [13..<k] @ k # [Suc k..<length data - 1]"
    using assms(7,8) by (metis le_add_diff_inverse less_imp_le_nat upt_add_eq_append upt_conv_Cons)
  have rows: "extract_impedance_data data =
      map ?row [13..<k] @ ?row k # map ?row [Suc k..<length data - 1]"
    unfolding extract_impedance_data_def slice_13_to_last_nth idx by (simp add: comp_def)
  have good: "\<forall>row\<in>set (map ?row [13..<k]).
      3 \<le> length row \<and> pyfloat (row ! 1) \<noteq> None \<and> pyfloat (row ! 2) \<noteq> None"
    using assms(9) by auto
  have loop: "get_freq_react_data pyfloat (extract_impedance_data data) = Inl ValueError"
    unfolding get_freq_react_data_def rows freq_react_loop_append [OF good]
    using assms(10) by (rule freq_react_loop_bad_row)
  show ?thesis
    unfolding init_sweep_def hdr ebind_Inr conv calculate_bmi_nonzero [OF assms(6)] Let_def
      loop ebind_Inl
    by (rule refl)
qed

lemma init_short_file:
  assumes "6 \<le> length (read_file content)" and "length (read_file content) \<le> 14"
    and "\<forall>i\<in>{2, 3, 4, 5}. 2 \<le> length (str_split CHR '' '' (read_file content ! i))"
    and "pyfloat (str_split CHR '' '' (read_file content ! 2) ! 1) = Some h"
    and "pyfloat (str_split CHR '' '' (read_file content ! 3) ! 1) = Some w"
    and "pyint (str_split CHR '' '' (read_file content ! 4) ! 1) = Some a"
    and "h \<noteq> Fin 0"
    and "leastsq (f_2 [] []) (NaN, Fin 0) = Inl e"
  shows "init pyfloat pyint leastsq content = Inl e"
proof -
  let ?data = "read_file content"
  have le: "length ?data - 1 \<le> 13"
    using assms(2) by linarith
  then have none: "[13..<length ?data - 1] = []"
    by simp
  have "\<forall>i\<in>{13..<length ?data - 1}.
           3 \<le> length (str_split CHR '','' (?data ! i)) \<and>
           pyfloat (str_split CHR '','' (?data ! i) ! 1) \<noteq> None \<and>
           pyfloat (str_split CHR '','' (?data ! i) ! 2) \<noteq> None"
    using le by simp
  then have all: "\<forall>i\<in>{13..<length ?data - 1}.
           3 \<le> length (str_split CHR '','' (?data ! i)) \<and>
           pyfloat (str_split CHR '','' (?data ! i) ! 1) \<noteq> None \<and>
           pyfloat (str_split CHR '','' (?data ! i) ! 2) \<noteq> None" .
  from init_sweep_ok [where data = ?data and pyfloat = pyfloat and pyint = pyint
      and h = h and w = w and a = a, OF assms(1,3,4,5,6,7) all]
  have parsed: "init_sweep pyfloat pyint ?data =
        Inr \<lparr>height = h, weight = w, age = a, sex = str_split CHR '' '' (?data ! 5) ! 1,
             bmi = np_div w (square (np_div h (Fin 100))),
             impedance_data = [], freq = [], react = []\<rparr>"
    unfolding none by simp
  have fit: "calculate_radius leastsq [] [] = Inl e"
    by (simp add: calculate_radius_unfold np_mean_Nil assms(8) ebind_Inl)
  show ?thesis
    unfolding init_def parsed ebind_Inr by (simp add: fit ebind_Inl)
qed

section \<open>The layout of the sweep file\<close>

text \<open>
  C5, as the specification states it, takes the height from the second
  whitespace-separated token of line 2. In the file below the label and the number of
  that line are two spaces apart: the second whitespace-separated token is \<open>170\<close>,
  which \<open>float\<close> accepts, but the code cuts the line at every single space, reads the
  empty string between the two spaces, and \<open>float\<close> raises on it.
\<close>

theorem init_sweep_whitespace_counterexample:
  "spec_whitespace_tokens ''Wzrost  170'' ! 1 = ''170'' \<and>
   map_of [(''170'', Fin 170), (''70'', Fin 70)] ''170'' = Some (Fin 170) \<and>
   init_sweep (map_of [(''170'', Fin 170), (''70'', Fin 70)]) (map_of [(''30'', 30)])
      [''MFU'', ''Pacjent'', ''Wzrost  170'', ''Waga 70'', ''Wiek 30'', ''Plec M'',
       '''', '''', '''', '''', '''', '''', ''Nr,f,X'', ''''] = Inl ValueError"
  by (simp add: spec_whitespace_tokens_def is_whitespace_def init_sweep_def header_field_def
      getitem_def ebind_Inr ebind_Inl convert_def)

text \<open>
  C5, amended. The header values are the second fields of lines 2, 3, 4 and 5 cut at
  every single space character: the height and the weight converted by \<open>float\<close>, the
  age by \<open>int\<close>, the sex as it stands. The samples are the lines from index 13 up to
  but excluding the last one, each cut at every comma, with the frequency converted from
  field 1 and the reactance from field 2. Whenever these fields are there and convert,
  and the height is not zero, the constructor gets exactly these values.
\<close>

theorem init_sweep_layout:
  assumes "6 \<le> length data"
    and "\<forall>i\<in>{2, 3, 4, 5}. 2 \<le> length (str_split CHR '' '' (data ! i))"
    and "pyfloat (str_split CHR '' '' (data ! 2) ! 1) = Some h"
    and "pyfloat (str_split CHR '' '' (data ! 3) ! 1) = Some w"
    and "pyint (str_split CHR '' '' (data ! 4) ! 1) = Some a"
    and "h \<noteq> Fin 0"
    and "\<forall>i\<in>{13..<length data - 1}.
           3 \<le> length (str_split CHR '','' (data ! i)) \<and>
           pyfloat (str_split CHR '','' (data ! i) ! 1) \<noteq> None \<and>
           pyfloat (str_split CHR '','' (data ! i) ! 2) \<noteq> None"
  shows "init_sweep pyfloat pyint data =
           Inr \<lparr>height = h, weight = w, age = a,
                sex = str_split CHR '' '' (data ! 5) ! 1,
                bmi = np_div w (square (np_div h (Fin 100))),
                impedance_data = map (\<lambda>i. str_split CHR '','' (data ! i)) [13..<length data - 1],
                freq = map (\<lambda>i. the (pyfloat (str_split CHR '','' (data ! i) ! 1)))
                         [13..<length data - 1],
                react = map (\<lambda>i. the (pyfloat (str_split CHR '','' (data ! i) ! 2)))
                          [13..<length data - 1]\<rparr>"
  using assms by (rule init_sweep_ok)

theorem init_sweep_layout_witness:
  "init_sweep (map_of [(''170'', Fin 170), (''70'', Fin 70), (''50'', Fin 50), (''3'', Fin 3),
            (''100'', Fin 100), (''4'', Fin 4)]) (map_of [(''30'', 30)])
      [''MFU'', ''Pacjent'', ''Wzrost 170'', ''Waga 70'', ''Wiek 30'', ''Plec M'',
       '''', '''', '''', '''', '''', '''', ''Nr,f,X'', ''1,50,3'', ''2,100,4'', ''''] =
   Inr \<lparr>height = Fin 170, weight = Fin 70, age = 30, sex = ''M'', bmi = Fin (70 / (17 / 10)\<^sup>2),
        impedance_data = [[''1'', ''50'', ''3''], [''2'', ''100'', ''4'']],
        freq = [Fin 50, Fin 100], react = [Fin 3, Fin 4]\<rparr>"
  using init_sweep_layout [of "[''MFU'', ''Pacjent'', ''Wzrost 170'', ''Waga 70'', ''Wiek 30'', ''Plec M'',
       '''', '''', '''', '''', '''', '''', ''Nr,f,X'', ''1,50,3'', ''2,100,4'', '''']"
       "map_of [(''170'', Fin 170), (''70'', Fin 70), (''50'', Fin 50), (''3'', Fin 3),
            (''100'', Fin 100), (''4'', Fin 4)]" "Fin 170" "Fin 70" "map_of [(''30'', 30)]" 30]
  by (simp add: square_def power2_eq_square atLeastLessThan_upt)
section \<open>Errors of the parser\<close>

text \<open>
  C8, as the specification states it, asks for an error that names the offending field
  and line, and for an error on every file of fewer than 14 lines. In the code a
  malformed height and a malformed weight raise the same \<open>ValueError\<close>; a file of six
  lines with a well-formed header is parsed, with an empty sweep; a file of two lines
  raises \<open>IndexError\<close>.
\<close>

theorem init_sweep_errors_counterexample:
  "init_sweep (map_of [(''170'', Fin 170), (''70'', Fin 70)]) (map_of [(''30'', 30)])
      [''MFU'', ''Pacjent'', ''Wzrost abc'', ''Waga 70'', ''Wiek 30'', ''Plec M'',
       '''', '''', '''', '''', '''', '''', ''Nr,f,X'', ''''] = Inl ValueError \<and>
   init_sweep (map_of [(''170'', Fin 170), (''70'', Fin 70)]) (map_of [(''30'', 30)])
      [''MFU'', ''Pacjent'', ''Wzrost 170'', ''Waga abc'', ''Wiek 30'', ''Plec M'',
       '''', '''', '''', '''', '''', '''', ''Nr,f,X'', ''''] = Inl ValueError \<and>
   init_sweep (map_of [(''170'', Fin 170), (''70'', Fin 70)]) (map_of [(''30'', 30)])
      [''MFU'', ''Pacjent'', ''Wzrost 170'', ''Waga 70'', ''Wiek 30'', ''Plec M''] =
     Inr \<lparr>height = Fin 170, weight = Fin 70, age = 30, sex = ''M'',
          bmi = Fin (70 / (17 / 10)\<^sup>2), impedance_data = [], freq = [], react = []\<rparr> \<and>
   init_sweep (map_of [(''170'', Fin 170), (''70'', Fin 70)]) (map_of [(''30'', 30)])
      [''MFU'', ''Pacjent''] = Inl IndexError"
  by (simp add: init_sweep_def header_field_def getitem_def ebind_Inr ebind_Inl convert_def
      calculate_bmi_def float_div_def square_def extract_impedance_data_def
      slice_13_to_last_def get_freq_react_data_def power2_eq_square)

text \<open>
  C8, amended. There is no error of the parser's own. A malformed token in the height,
  the weight or the age, or in the frequency or reactance of a sample row, makes the
  constructor raise \<open>ValueError\<close> when everything read before it is well-formed (for a
  sample row: the header, a height that is not zero, and the rows above it); the same
  \<open>ValueError\<close> in each case, naming neither field nor line. Wherever such a token
  stands, the constructor never returns an object. A file of fewer than 6 lines makes it
  raise \<open>IndexError\<close> or \<open>ValueError\<close>. On a file of 6 to 14 lines with a well-formed
  header the statements that read the file succeed, with no samples; the constructor then
  hands the empty sweep to the least-squares routine and, when that raises, fails with
  the routine's exception.
\<close>

theorem init_sweep_errors:
  "(2 < length data \<and> 2 \<le> length (str_split CHR '' '' (data ! 2)) \<and>
    pyfloat (str_split CHR '' '' (data ! 2) ! 1) = None \<longrightarrow>
      init_sweep pyfloat pyint data = Inl ValueError) \<and>
   (3 < length data \<and> 2 \<le> length (str_split CHR '' '' (data ! 2)) \<and>
    pyfloat (str_split CHR '' '' (data ! 2) ! 1) \<noteq> None \<and>
    2 \<le> length (str_split CHR '' '' (data ! 3)) \<and>
    pyfloat (str_split CHR '' '' (data ! 3) ! 1) = None \<longrightarrow>
      init_sweep pyfloat pyint data = Inl ValueError) \<and>
   (4 < length data \<and> 2 \<le> length (str_split CHR '' '' (data ! 2)) \<and>
    pyfloat (str_split CHR '' '' (data ! 2) ! 1) \<noteq> None \<and>
    2 \<le> length (str_split CHR '' '' (data ! 3)) \<and>
    pyfloat (str_split CHR '' '' (data ! 3) ! 1) \<noteq> None \<and>
    2 \<le> length (str_split CHR '' '' (data ! 4)) \<and>
    pyint (str_split CHR '' '' (data ! 4) ! 1) = None \<longrightarrow>
      init_sweep pyfloat pyint data = Inl ValueError) \<and>
   (6 \<le> length data \<and>
    (\<forall>i\<in>{2, 3, 4, 5}. 2 \<le> length (str_split CHR '' '' (data ! i))) \<and>
    pyfloat (str_split CHR '' '' (data ! 2) ! 1) = Some h \<and> h \<noteq> Fin 0 \<and>
    pyfloat (str_split CHR '' '' (data ! 3) ! 1) \<noteq> None \<and>
    pyint (str_split CHR '' '' (data ! 4) ! 1) \<noteq> None \<and>
    13 \<le> k \<and> k < length data - 1 \<and>
    (\<forall>i\<in>{13..<k}.
       3 \<le> length (str_split CHR '','' (data ! i)) \<and>
       pyfloat (str_split CHR '','' (data ! i) ! 1) \<noteq> None \<and>
       pyfloat (str_split CHR '','' (data ! i) ! 2) \<noteq> None) \<and>
    ((2 \<le> length (str_split CHR '','' (data ! k)) \<and>
        pyfloat (str_split CHR '','' (data ! k) ! 1) = None) \<or>
     (3 \<le> length (str_split CHR '','' (data ! k)) \<and>
        pyfloat (str_split CHR '','' (data ! k) ! 2) = None)) \<longrightarrow>
      init_sweep pyfloat pyint data = Inl ValueError) \<and>
   ((2 < length data \<and> 2 \<le> length (str_split CHR '' '' (data ! 2)) \<and>
       pyfloat (str_split CHR '' '' (data ! 2) ! 1) = None) \<or>
    (3 < length data \<and> 2 \<le> length (str_split CHR '' '' (data ! 3)) \<and>
       pyfloat (str_split CHR '' '' (data ! 3) ! 1) = None) \<or>
    (4 < length data \<and> 2 \<le> length (str_split CHR '' '' (data ! 4)) \<and>
       pyint (str_split CHR '' '' (data ! 4) ! 1) = None) \<or>
    (\<exists>line\<in>set (slice_13_to_last data).
       (2 \<le> length (str_split CHR '','' line) \<and>
          pyfloat (str_split CHR '','' line ! 1) = None) \<or>
       (3 \<le> length (str_split CHR '','' line) \<and>
          pyfloat (str_split CHR '','' line ! 2) = None)) \<longrightarrow>
      (\<exists>e. init_sweep pyfloat pyint data = Inl e)) \<and>
   (length data < 6 \<longrightarrow>
      init_sweep pyfloat pyint data = Inl IndexError \<or>
      init_sweep pyfloat pyint data = Inl ValueError) \<and>
   (6 \<le> length data \<and> length data \<le> 14 \<and>
    (\<forall>i\<in>{2, 3, 4, 5}. 2 \<le> length (str_split CHR '' '' (data ! i))) \<and>
    pyfloat (str_split CHR '' '' (data ! 2) ! 1) = Some h \<and>
    pyfloat (str_split CHR '' '' (data ! 3) ! 1) = Some w \<and>
    pyint (str_split CHR '' '' (data ! 4) ! 1) = Some a \<and> h \<noteq> Fin 0 \<longrightarrow>
      init_sweep pyfloat pyint data =
        Inr \<lparr>height = h, weight = w, age = a, sex = str_split CHR '' '' (data ! 5) ! 1,
             bmi = np_div w (square (np_div h (Fin 100))),
             impedance_data = [], freq = [], react = []\<rparr> \<and>
      (data = read_file content \<and> leastsq (f_2 [] []) (NaN, Fin 0) = Inl e0 \<longrightarrow>
         init pyfloat pyint leastsq content = Inl e0))"
proof (intro conjI impI)
  assume "2 < length data \<and> 2 \<le> length (str_split CHR '' '' (data ! 2)) \<and>
    pyfloat (str_split CHR '' '' (data ! 2) ! 1) = None"
  then show "init_sweep pyfloat pyint data = Inl ValueError"
    using init_sweep_bad_height by blast
next
  assume "3 < length data \<and> 2 \<le> length (str_split CHR '' '' (data ! 2)) \<and>
    pyfloat (str_split CHR '' '' (data ! 2) ! 1) \<noteq> None \<and>
    2 \<le> length (str_split CHR '' '' (data ! 3)) \<and>
    pyfloat (str_split CHR '' '' (data ! 3) ! 1) = None"
  then show "init_sweep pyfloat pyint data = Inl ValueError"
    using init_sweep_bad_weight by blast
next
  assume "4 < length data \<and> 2 \<le> length (str_split CHR '' '' (data ! 2)) \<and>
    pyfloat (str_split CHR '' '' (data ! 2) ! 1) \<noteq> None \<and>
    2 \<le> length (str_split CHR '' '' (data ! 3)) \<and>
    pyfloat (str_split CHR '' '' (data ! 3) ! 1) \<noteq> None \<and>
    2 \<le> length (str_split CHR '' '' (data ! 4)) \<and>
    pyint (str_split CHR '' '' (data ! 4) ! 1) = None"
  then show "init_sweep pyfloat pyint data = Inl ValueError"
    using init_sweep_bad_age by blast
next
  assume s: "6 \<le> length data \<and>
    (\<forall>i\<in>{2, 3, 4, 5}. 2 \<le> length (str_split CHR '' '' (data ! i))) \<and>
    pyfloat (str_split CHR '' '' (data ! 2) ! 1) = Some h \<and> h \<noteq> Fin 0 \<and>
    pyfloat (str_split CHR '' '' (data ! 3) ! 1) \<noteq> None \<and>
    pyint (str_split CHR '' '' (data ! 4) ! 1) \<noteq> None \<and>
    13 \<le> k \<and> k < length data - 1 \<and>
    (\<forall>i\<in>{13..<k}.
       3 \<le> length (str_split CHR '','' (data ! i)) \<and>
       pyfloat (str_split CHR '','' (data ! i) ! 1) \<noteq> None \<and>
       pyfloat (str_split CHR '','' (data ! i) ! 2) \<noteq> None) \<and>
    ((2 \<le> length (str_split CHR '','' (data ! k)) \<and>
        pyfloat (str_split CHR '','' (data ! k) ! 1) = None) \<or>
     (3 \<le> length (str_split CHR '','' (data ! k)) \<and>
        pyfloat (str_split CHR '','' (data ! k) ! 2) = None))"
  show "init_sweep pyfloat pyint data = Inl ValueError"
    by (rule init_sweep_bad_sample [where h = h and k = k]) (use s in blast)+
next
  assume bad: "(2 < length data \<and> 2 \<le> length (str_split CHR '' '' (data ! 2)) \<and>
       pyfloat (str_split CHR '' '' (data ! 2) ! 1) = None) \<or>
    (3 < length data \<and> 2 \<le> length (str_split CHR '' '' (data ! 3)) \<and>
       pyfloat (str_split CHR '' '' (data ! 3) ! 1) = None) \<or>
    (4 < length data \<and> 2 \<le> length (str_split CHR '' '' (data ! 4)) \<and>
       pyint (str_split CHR '' '' (data ! 4) ! 1) = None) \<or>
    (\<exists>line\<in>set (slice_13_to_last data).
       (2 \<le> length (str_split CHR '','' line) \<and>
          pyfloat (str_split CHR '','' line ! 1) = None) \<or>
       (3 \<le> length (str_split CHR '','' line) \<and>
          pyfloat (str_split CHR '','' line ! 2) = None))"
  show "\<exists>e. init_sweep pyfloat pyint data = Inl e"
  proof (cases "init_sweep pyfloat pyint data")
    case (Inl e)
    then show ?thesis by blast
  next
    case (Inr d)
    from init_sweep_success [OF Inr] bad show ?thesis by fastforce
  qed
next
  assume "length data < 6"
  then show "init_sweep pyfloat pyint data = Inl IndexError \<or>
      init_sweep pyfloat pyint data = Inl ValueError"
    by (rule init_sweep_short)
next
  assume ok: "6 \<le> length data \<and> length data \<le> 14 \<and>
    (\<forall>i\<in>{2, 3, 4, 5}. 2 \<le> length (str_split CHR '' '' (data ! i))) \<and>
    pyfloat (str_split CHR '' '' (data ! 2) ! 1) = Some h \<and>
    pyfloat (str_split CHR '' '' (data ! 3) ! 1) = Some w \<and>
    pyint (str_split CHR '' '' (data ! 4) ! 1) = Some a \<and> h \<noteq> Fin 0"
  then have le: "length data - 1 \<le> 13"
    by linarith
  then have none: "[13..<length data - 1] = []"
    by simp
  have "\<forall>i\<in>{13..<length data - 1}.
           3 \<le> length (str_split CHR '','' (data ! i)) \<and>
           pyfloat (str_split CHR '','' (data ! i) ! 1) \<noteq> None \<and>
           pyfloat (str_split CHR '','' (data ! i) ! 2) \<noteq> None"
    using le by simp
  with ok have "init_sweep pyfloat pyint data =
           Inr \<lparr>height = h, weight = w, age = a,
                sex = str_split CHR '' '' (data ! 5) ! 1,
                bmi = np_div w (square (np_div h (Fin 100))),
                impedance_data = map (\<lambda>i. str_split CHR '','' (data ! i)) [13..<length data - 1],
                freq = map (\<lambda>i. the (pyfloat (str_split CHR '','' (data ! i) ! 1)))
                         [13..<length data - 1],
                react = map (\<lambda>i. the (pyfloat (str_split CHR '','' (data ! i) ! 2)))
                          [13..<length data - 1]\<rparr>"
    by (intro init_sweep_ok) simp_all
  then show "init_sweep pyfloat pyint data =
        Inr \<lparr>height = h, weight = w, age = a, sex = str_split CHR '' '' (data ! 5) ! 1,
             bmi = np_div w (square (np_div h (Fin 100))),
             impedance_data = [], freq = [], react = []\<rparr>"
    unfolding none by simp
next
  assume ok: "6 \<le> length data \<and> length data \<le> 14 \<and>
    (\<forall>i\<in>{2, 3, 4, 5}. 2 \<le> length (str_split CHR '' '' (data ! i))) \<and>
    pyfloat (str_split CHR '' '' (data ! 2) ! 1) = Some h \<and>
    pyfloat (str_split CHR '' '' (data ! 3) ! 1) = Some w \<and>
    pyint (str_split CHR '' '' (data ! 4) ! 1) = Some a \<and> h \<noteq> Fin 0"
    and run: "data = read_file content \<and> leastsq (f_2 [] []) (NaN, Fin 0) = Inl e0"
  show "init pyfloat pyint leastsq content = Inl e0"
    by (rule init_short_file [where h = h and w = w and a = a]) (use ok run in blast)+
qed
text \<open>
  Instances, one per case: a letter O for a zero in the height, the weight, the age and
  a frequency; a file with a missing weight and a malformed reactance; a file of three
  lines; a file of six lines and a final newline, with a routine that rejects the empty
  sweep.
\<close>

theorem init_sweep_errors_witness:
  "init_sweep (map_of [(''170'', Fin 170), (''70'', Fin 70), (''50'', Fin 50), (''3'', Fin 3)])
      (map_of [(''30'', 30)])
      [''MFU'', ''Pacjent'', ''Wzrost 17O'', ''Waga 70'', ''Wiek 30'', ''Plec M''] = Inl ValueError \<and>
   init_sweep (map_of [(''170'', Fin 170), (''70'', Fin 70), (''50'', Fin 50), (''3'', Fin 3)])
      (map_of [(''30'', 30)])
      [''MFU'', ''Pacjent'', ''Wzrost 170'', ''Waga 7O'', ''Wiek 30'', ''Plec M''] = Inl ValueError \<and>
   init_sweep (map_of [(''170'', Fin 170), (''70'', Fin 70), (''50'', Fin 50), (''3'', Fin 3)])
      (map_of [(''30'', 30)])
      [''MFU'', ''Pacjent'', ''Wzrost 170'', ''Waga 70'', ''Wiek 3O'', ''Plec M''] = Inl ValueError \<and>
   init_sweep (map_of [(''170'', Fin 170), (''70'', Fin 70), (''50'', Fin 50), (''3'', Fin 3)])
      (map_of [(''30'', 30)])
      [''MFU'', ''Pacjent'', ''Wzrost 170'', ''Waga 70'', ''Wiek 30'', ''Plec M'',
       '''', '''', '''', '''', '''', '''', ''Nr,f,X'', ''1,50,3'', ''2,5O,3'', ''''] = Inl ValueError \<and>
   (\<exists>e. init_sweep (map_of [(''170'', Fin 170), (''70'', Fin 70), (''50'', Fin 50), (''3'', Fin 3)])
      (map_of [(''30'', 30)])
      [''MFU'', ''Pacjent'', ''Wzrost 170'', ''Waga'', ''Wiek 30'', ''Plec M'',
       '''', '''', '''', '''', '''', '''', ''Nr,f,X'', ''1,50,E'', ''''] = Inl e) \<and>
   (init_sweep (map_of [(''170'', Fin 170), (''70'', Fin 70), (''50'', Fin 50), (''3'', Fin 3)])
      (map_of [(''30'', 30)]) [''MFU'', ''Pacjent'', ''Wzrost''] = Inl IndexError \<or>
    init_sweep (map_of [(''170'', Fin 170), (''70'', Fin 70), (''50'', Fin 50), (''3'', Fin 3)])
      (map_of [(''30'', 30)]) [''MFU'', ''Pacjent'', ''Wzrost''] = Inl ValueError) \<and>
   init_sweep (map_of [(''170'', Fin 170), (''70'', Fin 70), (''50'', Fin 50), (''3'', Fin 3)])
      (map_of [(''30'', 30)])
      [''MFU'', ''Pacjent'', ''Wzrost 170'', ''Waga 70'', ''Wiek 30'', ''Plec M'', ''''] =
     Inr \<lparr>height = Fin 170, weight = Fin 70, age = 30, sex = ''M'',
          bmi = Fin (70 / (17 / 10)\<^sup>2), impedance_data = [], freq = [], react = []\<rparr> \<and>
   init (map_of [(''170'', Fin 170), (''70'', Fin 70), (''50'', Fin 50), (''3'', Fin 3)])
      (map_of [(''30'', 30)]) (\<lambda>residuals start. Inl TypeError)
      (''MFU'' @ [CHR 0x0A] @ ''Pacjent'' @ [CHR 0x0A] @ ''Wzrost 170'' @ [CHR 0x0A] @
       ''Waga 70'' @ [CHR 0x0A] @ ''Wiek 30'' @ [CHR 0x0A] @ ''Plec M'' @ [CHR 0x0A]) =
     Inl TypeError"
proof -
  let ?pf = "map_of [(''170'', Fin 170), (''70'', Fin 70), (''50'', Fin 50), (''3'', Fin 3)]"
  let ?pi = "map_of [(''30'', 30 :: int)]"
  note t = init_sweep_errors [where pyfloat = ?pf and pyint = ?pi]
  have c1: "init_sweep ?pf ?pi
      [''MFU'', ''Pacjent'', ''Wzrost 17O'', ''Waga 70'', ''Wiek 30'', ''Plec M''] = Inl ValueError"
    using t [where data = "[''MFU'', ''Pacjent'', ''Wzrost 17O'', ''Waga 70'', ''Wiek 30'', ''Plec M'']",
      THEN conjunct1]
    by simp
  have c2: "init_sweep ?pf ?pi
      [''MFU'', ''Pacjent'', ''Wzrost 170'', ''Waga 7O'', ''Wiek 30'', ''Plec M''] = Inl ValueError"
    using t [where data = "[''MFU'', ''Pacjent'', ''Wzrost 170'', ''Waga 7O'', ''Wiek 30'', ''Plec M'']",
      THEN conjunct2, THEN conjunct1]
    by simp
  have c3: "init_sweep ?pf ?pi
      [''MFU'', ''Pacjent'', ''Wzrost 170'', ''Waga 70'', ''Wiek 3O'', ''Plec M''] = Inl ValueError"
    using t [where data = "[''MFU'', ''Pacjent'', ''Wzrost 170'', ''Waga 70'', ''Wiek 3O'', ''Plec M'']",
      THEN conjunct2, THEN conjunct2, THEN conjunct1]
    by simp
  have c4: "init_sweep ?pf ?pi
      [''MFU'', ''Pacjent'', ''Wzrost 170'', ''Waga 70'', ''Wiek 30'', ''Plec M'',
       '''', '''', '''', '''', '''', '''', ''Nr,f,X'', ''1,50,3'', ''2,5O,3'', ''''] = Inl ValueError"
    using t [where data = "[''MFU'', ''Pacjent'', ''Wzrost 170'', ''Waga 70'', ''Wiek 30'', ''Plec M'',
       '''', '''', '''', '''', '''', '''', ''Nr,f,X'', ''1,50,3'', ''2,5O,3'', '''']"
      and h = "Fin 170" and k = 14,
      THEN conjunct2, THEN conjunct2, THEN conjunct2, THEN conjunct1]
    by (simp add: atLeastLessThan_upt)
  have c5: "\<exists>e. init_sweep ?pf ?pi
      [''MFU'', ''Pacjent'', ''Wzrost 170'', ''Waga'', ''Wiek 30'', ''Plec M'',
       '''', '''', '''', '''', '''', '''', ''Nr,f,X'', ''1,50,E'', ''''] = Inl e"
    using t [where data = "[''MFU'', ''Pacjent'', ''Wzrost 170'', ''Waga'', ''Wiek 30'', ''Plec M'',
       '''', '''', '''', '''', '''', '''', ''Nr,f,X'', ''1,50,E'', '''']",
      THEN conjunct2, THEN conjunct2, THEN conjunct2, THEN conjunct2, THEN conjunct1]
    by (simp add: slice_13_to_last_def)
  have c6: "init_sweep ?pf ?pi [''MFU'', ''Pacjent'', ''Wzrost''] = Inl IndexError \<or>
      init_sweep ?pf ?pi [''MFU'', ''Pacjent'', ''Wzrost''] = Inl ValueError"
    using t [where data = "[''MFU'', ''Pacjent'', ''Wzrost'']",
      THEN conjunct2, THEN conjunct2, THEN conjunct2, THEN conjunct2, THEN conjunct2, THEN conjunct1]
    by simp
  have rd: "read_file (''MFU'' @ [CHR 0x0A] @ ''Pacjent'' @ [CHR 0x0A] @ ''Wzrost 170'' @ [CHR 0x0A] @
       ''Waga 70'' @ [CHR 0x0A] @ ''Wiek 30'' @ [CHR 0x0A] @ ''Plec M'' @ [CHR 0x0A]) =
      [''MFU'', ''Pacjent'', ''Wzrost 170'', ''Waga 70'', ''Wiek 30'', ''Plec M'', '''']"
    by (simp add: read_file_def)
  have c7: "init_sweep ?pf ?pi
      [''MFU'', ''Pacjent'', ''Wzrost 170'', ''Waga 70'', ''Wiek 30'', ''Plec M'', ''''] =
     Inr \<lparr>height = Fin 170, weight = Fin 70, age = 30, sex = ''M'',
          bmi = Fin (70 / (17 / 10)\<^sup>2), impedance_data = [], freq = [], react = []\<rparr> \<and>
     init ?pf ?pi (\<lambda>residuals start. Inl TypeError)
      (''MFU'' @ [CHR 0x0A] @ ''Pacjent'' @ [CHR 0x0A] @ ''Wzrost 170'' @ [CHR 0x0A] @
       ''Waga 70'' @ [CHR 0x0A] @ ''Wiek 30'' @ [CHR 0x0A] @ ''Plec M'' @ [CHR 0x0A]) =
     Inl TypeError"
    using t [where data = "[''MFU'', ''Pacjent'', ''Wzrost 170'', ''Waga 70'', ''Wiek 30'', ''Plec M'', '''']"
      and h = "Fin 170" and w = "Fin 70" and a = 30
      and leastsq = "\<lambda>residuals start. Inl TypeError" and ?e0.0 = TypeError
      and content = "''MFU'' @ [CHR 0x0A] @ ''Pacjent'' @ [CHR 0x0A] @ ''Wzrost 170'' @ [CHR 0x0A] @
       ''Waga 70'' @ [CHR 0x0A] @ ''Wiek 30'' @ [CHR 0x0A] @ ''Plec M'' @ [CHR 0x0A]",
      THEN conjunct2, THEN conjunct2, THEN conjunct2, THEN conjunct2, THEN conjunct2, THEN conjunct2]
    unfolding rd
    by (simp add: square_def power2_eq_square)
  from c1 c2 c3 c4 c5 c6 c7 show ?thesis by blast
qed

section \<open>Sample rows need three fields\<close>

text \<open>
  C10, as the specification states it, has every row of two fields fail with an index
  out of range. In the file below the row \<open>100,abc\<close> has two fields; \<open>float\<close> raises
  on \<open>abc\<close>, which is field 1, before field 2 is asked for.
\<close>

theorem sample_row_two_fields_counterexample:
  "get_freq_react_data (map_of [(''50'', Fin 50), (''3'', Fin 3), (''100'', Fin 100), (''4'', Fin 4)])
     (extract_impedance_data
        [''MFU'', ''Pacjent'', ''Wzrost 170'', ''Waga 70'', ''Wiek 30'', ''Plec M'',
         '''', '''', '''', '''', '''', '''', ''Nr,f,X'', ''1,50,3'', ''100,abc'', '''']) =
     Inl ValueError"
  by (simp add: get_freq_react_data_def extract_impedance_data_def slice_13_to_last_def
      getitem_def ebind_Inr ebind_Inl convert_def)

text \<open>
  C10, amended. When \<open>get_freq_react_data\<close> succeeds on the rows of a file, every sample
  line has at least three comma-separated fields. A row of fewer than three fields, after
  rows that are read without error, makes it raise: \<open>ValueError\<close> when the row has two
  fields and field 1 is no number, \<open>IndexError\<close> in every other case. So a row of two
  numbers is not read as a (frequency, reactance) pair.
\<close>

theorem sample_row_needs_three_fields:
  "(get_freq_react_data pyfloat (extract_impedance_data data) = Inr r \<longrightarrow>
      (\<forall>line\<in>set (slice_13_to_last data). 3 \<le> length (str_split CHR '','' line))) \<and>
   ((\<forall>row\<in>set good. 3 \<le> length row \<and> pyfloat (row ! 1) \<noteq> None \<and> pyfloat (row ! 2) \<noteq> None) \<and>
    length row < 3 \<longrightarrow>
      get_freq_react_data pyfloat (good @ row # rest) =
        (if length row = 2 \<and> pyfloat (row ! 1) = None then Inl ValueError else Inl IndexError))"
proof (intro conjI impI)
  assume "get_freq_react_data pyfloat (extract_impedance_data data) = Inr r"
  then show "\<forall>line\<in>set (slice_13_to_last data). 3 \<le> length (str_split CHR '','' line)"
    using freq_react_loop_success [of pyfloat "extract_impedance_data data" "[]" "[]" r]
    by (simp add: get_freq_react_data_def extract_impedance_data_def)
next
  assume h: "(\<forall>row\<in>set good. 3 \<le> length row \<and> pyfloat (row ! 1) \<noteq> None \<and> pyfloat (row ! 2) \<noteq> None) \<and>
    length row < 3"
  then have good: "\<forall>row\<in>set good. 3 \<le> length row \<and> pyfloat (row ! 1) \<noteq> None \<and> pyfloat (row ! 2) \<noteq> None"
    by blast
  show "get_freq_react_data pyfloat (good @ row # rest) =
        (if length row = 2 \<and> pyfloat (row ! 1) = None then Inl ValueError else Inl IndexError)"
  proof (cases "length row = 2 \<and> pyfloat (row ! 1) = None")
    case True
    then have bad: "(2 \<le> length row \<and> pyfloat (row ! 1) = None) \<or>
        (3 \<le> length row \<and> pyfloat (row ! 2) = None)"
      by simp
    have eq: "get_freq_react_data pyfloat (good @ row # rest) = Inl ValueError"
      unfolding get_freq_react_data_def freq_react_loop_append [OF good]
      by (rule freq_react_loop_bad_row [OF bad])
    show ?thesis
      unfolding eq using True by simp
  next
    case False
    then have num: "length row = 2 \<longrightarrow> pyfloat (row ! 1) \<noteq> None"
      by simp
    have short: "length row < 3"
      using h by blast
    have eq: "get_freq_react_data pyfloat (good @ row # rest) = Inl IndexError"
      unfolding get_freq_react_data_def freq_react_loop_append [OF good]
      using short num by (rule freq_react_loop_short_row)
    show ?thesis
      unfolding eq using False by simp
  qed
qed

text \<open>
  Three files: in the first both sample lines have three fields and the sweep is read; in
  the second the line \<open>100,4\<close> has two numbers; in the third its field 1 is no number.
\<close>

theorem sample_row_needs_three_fields_witness:
  "get_freq_react_data (map_of [(''50'', Fin 50), (''3'', Fin 3), (''100'', Fin 100), (''4'', Fin 4)])
     (extract_impedance_data
        [''MFU'', ''Pacjent'', ''Wzrost 170'', ''Waga 70'', ''Wiek 30'', ''Plec M'',
         '''', '''', '''', '''', '''', '''', ''Nr,f,X'', ''1,50,3'', ''2,100,4'', '''']) =
     Inr ([Fin 50, Fin 100], [Fin 3, Fin 4]) \<and>
   3 \<le> length (str_split CHR '','' ''1,50,3'') \<and> 3 \<le> length (str_split CHR '','' ''2,100,4'') \<and>
   get_freq_react_data (map_of [(''50'', Fin 50), (''3'', Fin 3), (''100'', Fin 100), (''4'', Fin 4)])
     (extract_impedance_data
        [''MFU'', ''Pacjent'', ''Wzrost 170'', ''Waga 70'', ''Wiek 30'', ''Plec M'',
         '''', '''', '''', '''', '''', '''', ''Nr,f,X'', ''1,50,3'', ''100,4'', '''']) =
     Inl IndexError \<and>
   get_freq_react_data (map_of [(''50'', Fin 50), (''3'', Fin 3), (''100'', Fin 100), (''4'', Fin 4)])
     (extract_impedance_data
        [''MFU'', ''Pacjent'', ''Wzrost 170'', ''Waga 70'', ''Wiek 30'', ''Plec M'',
         '''', '''', '''', '''', '''', '''', ''Nr,f,X'', ''1,50,3'', ''100,4O'', '''']) =
     Inl ValueError"
proof -
  have read: "get_freq_react_data
      (map_of [(''50'', Fin 50), (''3'', Fin 3), (''100'', Fin 100), (''4'', Fin 4)])
      (extract_impedance_data
        [''MFU'', ''Pacjent'', ''Wzrost 170'', ''Waga 70'', ''Wiek 30'', ''Plec M'',
         '''', '''', '''', '''', '''', '''', ''Nr,f,X'', ''1,50,3'', ''2,100,4'', '''']) =
      Inr ([Fin 50, Fin 100], [Fin 3, Fin 4])"
    by (simp add: get_freq_react_data_def extract_impedance_data_def slice_13_to_last_def
        getitem_def ebind_Inr convert_def)
  have fields: "3 \<le> length (str_split CHR '','' ''1,50,3'') \<and>
      3 \<le> length (str_split CHR '','' ''2,100,4'')"
    using sample_row_needs_three_fields [THEN conjunct1, THEN mp, OF read]
    by (simp add: slice_13_to_last_def)
  have raised: "get_freq_react_data
      (map_of [(''50'', Fin 50), (''3'', Fin 3), (''100'', Fin 100), (''4'', Fin 4)])
      (extract_impedance_data
        [''MFU'', ''Pacjent'', ''Wzrost 170'', ''Waga 70'', ''Wiek 30'', ''Plec M'',
         '''', '''', '''', '''', '''', '''', ''Nr,f,X'', ''1,50,3'', ''100,4'', '''']) =
      Inl IndexError"
    using sample_row_needs_three_fields
      [where pyfloat = "map_of [(''50'', Fin 50), (''3'', Fin 3), (''100'', Fin 100), (''4'', Fin 4)]"
         and good = "[[''1'', ''50'', ''3'']]" and row = "[''100'', ''4'']" and rest = "[]",
       THEN conjunct2]
    by (simp add: extract_impedance_data_def slice_13_to_last_def)
  have refused: "get_freq_react_data
      (map_of [(''50'', Fin 50), (''3'', Fin 3), (''100'', Fin 100), (''4'', Fin 4)])
      (extract_impedance_data
        [''MFU'', ''Pacjent'', ''Wzrost 170'', ''Waga 70'', ''Wiek 30'', ''Plec M'',
         '''', '''', '''', '''', '''', '''', ''Nr,f,X'', ''1,50,3'', ''100,4O'', '''']) =
      Inl ValueError"
    using sample_row_needs_three_fields
      [where pyfloat = "map_of [(''50'', Fin 50), (''3'', Fin 3), (''100'', Fin 100), (''4'', Fin 4)]"
         and good = "[[''1'', ''50'', ''3'']]" and row = "[''100'', ''4O'']" and rest = "[]",
       THEN conjunct2]
    by (simp add: extract_impedance_data_def slice_13_to_last_def)
  from read fields raised refused show ?thesis by blast
qed

section \<open>The test of the extension\<close>

text \<open>
  C9. The script compares the text between the first and the second dot of the path
  with \<open>mfu\<close>. An existing file \<open>./sweep.mfu\<close> is rejected with the error message, an
  existing file with no dot in its path raises \<open>IndexError\<close>, and an existing file
  \<open>sweep.mfu.txt\<close> is analysed; a plain \<open>sweep.mfu\<close> is analysed too.
\<close>

theorem main_extension_check:
  "main {''./sweep.mfu''} ''./sweep.mfu'' = Inr Print_error_message \<and>
   main {''sweep''} ''sweep'' = Inl IndexError \<and>
   main {''sweep.mfu.txt''} ''sweep.mfu.txt'' = Inr Run_analysis \<and>
   main {''sweep.mfu''} ''sweep.mfu'' = Inr Run_analysis"
  by (simp add: main_def getitem_def ebind_Inr ebind_Inl)

end
